theory Spec2Isabelle
  imports Main
begin

section \<open>Python values and the operations the client applies to them\<close>

text \<open>
  The values the client handles come out of \<^verbatim>\<open>response.json()\<close> or are built from
  such values: \<^verbatim>\<open>None\<close>, booleans, numbers, strings, lists and dictionaries. A dictionary
  is an association list read with \<open>map_of\<close>. Numbers are integers: the client only tests
  them for truth.
\<close>

datatype pyval =
    PNone
  | PBool bool
  | PInt int
  | PStr string
  | PList "pyval list"
  | PDict "(string \<times> pyval) list"

text \<open>The exceptions the modelled statements can raise; all are caught as \<^verbatim>\<open>Exception\<close>.\<close>

datatype exn =
    RequestException
  | JSONDecodeError
  | KeyError
  | AttributeError
  | TypeError
  | ValueError
  | OSError

text \<open>\<^verbatim>\<open>if x:\<close> and \<^verbatim>\<open>if not x:\<close>.\<close>

fun truthy :: "pyval \<Rightarrow> bool" where
  "truthy PNone = False"
| "truthy (PBool b) = b"
| "truthy (PInt i) = (i \<noteq> 0)"
| "truthy (PStr s) = (s \<noteq> [])"
| "truthy (PList xs) = (xs \<noteq> [])"
| "truthy (PDict kvs) = (kvs \<noteq> [])"

text \<open>\<^verbatim>\<open>d.get(k, default)\<close>: only a dictionary has the method.\<close>

fun py_get :: "pyval \<Rightarrow> string \<Rightarrow> pyval \<Rightarrow> exn + pyval" where
  "py_get (PDict kvs) k d = Inr (case map_of kvs k of Some v \<Rightarrow> v | None \<Rightarrow> d)"
| "py_get _ k d = Inl AttributeError"

text \<open>\<^verbatim>\<open>d[k]\<close> with a string key.\<close>

fun py_item :: "pyval \<Rightarrow> string \<Rightarrow> exn + pyval" where
  "py_item (PDict kvs) k = (case map_of kvs k of Some v \<Rightarrow> Inr v | None \<Rightarrow> Inl KeyError)"
| "py_item _ k = Inl TypeError"

text \<open>
  \<^verbatim>\<open>for x in v\<close>: the elements of a list, the keys of a dictionary, the characters of a
  string; anything else is not iterable.
\<close>

fun py_iter :: "pyval \<Rightarrow> exn + pyval list" where
  "py_iter (PList xs) = Inr xs"
| "py_iter (PDict kvs) = Inr (map (\<lambda>kv. PStr (fst kv)) kvs)"
| "py_iter (PStr s) = Inr (map (\<lambda>c. PStr [c]) s)"
| "py_iter _ = Inl TypeError"

section \<open>The outside world, and what a run does to it\<close>

record response =
  status_code :: int
  json_body :: "pyval option"

text \<open>
  The HTTP requests of the client, by endpoint, with the parameters that vary:
  \<^item> \<open>CreateSession identifier password\<close>;
  \<^item> \<open>GetDidDocument did\<close>, the lookup at the PLC directory;
  \<^item> \<open>GetServiceAuth bearer aud exp\<close> (the \<^verbatim>\<open>lxm\<close> parameter is a constant);
  \<^item> \<open>UploadVideo bearer did data\<close>;
  \<^item> \<open>GetJobStatus bearer jobId\<close>;
  \<^item> \<open>CreateRecord bearer repo record\<close>.
\<close>

datatype request =
    CreateSession string string
  | GetDidDocument pyval
  | GetServiceAuth pyval pyval int
  | UploadVideo pyval string string
  | GetJobStatus pyval pyval
  | CreateRecord pyval pyval pyval

text \<open>
  The diagnostics of the failure and warning branches (the \<^verbatim>\<open>print\<close> and logger calls
  that say why a function gives up). Progress and debug output is not modelled.
\<close>

datatype msg =
    LoginFailed int
  | SessionCreationError exn
  | PdsServiceNotFound
  | DidDocumentFailed int
  | PdsDidError exn
  | NoPdsDid
  | ServiceAuthFailed int
  | ServiceAuthError exn
  | CompleteButNoBlob
  | ProcessingFailed pyval
  | UnknownJobState pyval
  | StatusCheckFailed int
  | ProcessingTimedOut
  | WaitError exn
  | NoBlobInJobStatus
  | JobStatusFailed int
  | CompletedJobError exn
  | NoBlobAfterProcessing
  | NoJobId
  | NoBlobFromCompletedJob
  | UnexpectedExistingState pyval
  | UploadFailed int
  | UploadError exn
  | PostCreationFailed int
  | PostCreationError exn
  | CredentialsNotConfigured
  | VideoTooLarge
  | VideoUploadFailed
  | PostFailed
  | PostingError exn

datatype event = Net request | Sleep nat | Say msg

text \<open>
  Everything outside the program is a parameter: the answer to a request may depend on all
  that happened before (\<open>None\<close>: \<^verbatim>\<open>requests\<close> raised), as may the clock;
  \<open>urlparse_netloc\<close> is \<^verbatim>\<open>urllib.parse.urlparse(s).netloc\<close> (\<open>None\<close>: it raised);
  \<open>stat_size\<close> and \<open>read_bytes\<close> are the file system (\<open>None\<close>: \<^verbatim>\<open>OSError\<close>).
\<close>

record world =
  respond :: "event list \<Rightarrow> request \<Rightarrow> response option"
  urlparse_netloc :: "string \<Rightarrow> string option"
  time_now :: "event list \<Rightarrow> int"
  utc_now_iso :: "event list \<Rightarrow> string"
  today_formatted :: "event list \<Rightarrow> string"
  stat_size :: "string \<Rightarrow> nat option"
  read_bytes :: "string \<Rightarrow> string option"

text \<open>The fields of \<^verbatim>\<open>FixedBlueSkyClient\<close> that change, and the trace of the run so far.\<close>

record state =
  access_token :: pyval
  did :: pyval
  handle :: pyval
  trace :: "event list"

type_synonym 'a io = "state \<Rightarrow> (exn + 'a) \<times> state"

definition ret :: "'a \<Rightarrow> 'a io" where
  "ret x s = (Inr x, s)"

definition raise :: "exn \<Rightarrow> 'a io" where
  "raise e s = (Inl e, s)"

definition lift :: "exn + 'a \<Rightarrow> 'a io" where
  "lift r s = (r, s)"

definition thn :: "'a io \<Rightarrow> ('a \<Rightarrow> 'b io) \<Rightarrow> 'b io" where
  "thn m f s = (case m s of (Inl e, s') \<Rightarrow> (Inl e, s') | (Inr x, s') \<Rightarrow> f x s')"

definition seq :: "unit io \<Rightarrow> 'b io \<Rightarrow> 'b io" where
  "seq m k = thn m (\<lambda>_. k)"

text \<open>\<^verbatim>\<open>try: m except Exception as e: h(e)\<close>.\<close>

definition try_except :: "'a io \<Rightarrow> (exn \<Rightarrow> 'a io) \<Rightarrow> 'a io" where
  "try_except m h s = (case m s of (Inl e, s') \<Rightarrow> h e s' | (Inr x, s') \<Rightarrow> (Inr x, s'))"

definition emit :: "event \<Rightarrow> unit io" where
  "emit e s = (Inr (), s\<lparr>trace := trace s @ [e]\<rparr>)"

definition say :: "msg \<Rightarrow> unit io" where
  "say m = emit (Say m)"

definition sleep :: "nat \<Rightarrow> unit io" where
  "sleep n = emit (Sleep n)"

definition http :: "world \<Rightarrow> request \<Rightarrow> response io" where
  "http w rq s =
     (case respond w (trace s) rq of
        None \<Rightarrow> (Inl RequestException, s\<lparr>trace := trace s @ [Net rq]\<rparr>)
      | Some r \<Rightarrow> (Inr r, s\<lparr>trace := trace s @ [Net rq]\<rparr>))"

definition response_json :: "response \<Rightarrow> exn + pyval" where
  "response_json r = (case json_body r of None \<Rightarrow> Inl JSONDecodeError | Some v \<Rightarrow> Inr v)"

definition read_state :: "(state \<Rightarrow> 'a) \<Rightarrow> 'a io" where
  "read_state f s = (Inr (f s), s)"

section \<open>FixedBlueSkyClient\<close>

text \<open>\<^verbatim>\<open>__init__\<close>: no token, no DID, no handle.\<close>

definition init_client :: "unit io" where
  "init_client s = (Inr (), s\<lparr>access_token := PNone, did := PNone, handle := PNone\<rparr>)"

definition create_session :: "world \<Rightarrow> string \<Rightarrow> string \<Rightarrow> bool io" where
  "create_session w identifier password =
     try_except
       (thn (http w (CreateSession identifier password)) (\<lambda>response.
        if status_code response = 200 then
          thn (lift (response_json response)) (\<lambda>data.
          thn (lift (py_item data ''accessJwt'')) (\<lambda>a.
          thn (\<lambda>s. (Inr (), s\<lparr>access_token := a\<rparr>)) (\<lambda>_.
          thn (lift (py_item data ''did'')) (\<lambda>d.
          thn (\<lambda>s. (Inr (), s\<lparr>did := d\<rparr>)) (\<lambda>_.
          thn (lift (py_item data ''handle'')) (\<lambda>h.
          thn (\<lambda>s. (Inr (), s\<lparr>handle := h\<rparr>)) (\<lambda>_.
          ret True)))))))
        else seq (say (LoginFailed (status_code response))) (ret False)))
       (\<lambda>e. seq (say (SessionCreationError e)) (ret False))"

text \<open>The loop over the services of the DID document.\<close>

fun find_pds :: "world \<Rightarrow> pyval list \<Rightarrow> pyval io" where
  "find_pds w [] = seq (say PdsServiceNotFound) (ret PNone)"
| "find_pds w (service # rest) =
     thn (lift (py_get service ''id'' PNone)) (\<lambda>i.
     if i = PStr ''#atproto_pds'' then
       thn (lift (py_get service ''serviceEndpoint'' (PStr ''''))) (\<lambda>pds_url.
       if truthy pds_url then
         (case pds_url of
            PStr u \<Rightarrow>
              (case urlparse_netloc w u of
                 None \<Rightarrow> raise ValueError
               | Some netloc \<Rightarrow> ret (PStr (''did:web:'' @ netloc)))
          | _ \<Rightarrow> raise AttributeError)
       else find_pds w rest)
     else find_pds w rest)"

definition get_user_pds_did :: "world \<Rightarrow> pyval io" where
  "get_user_pds_did w =
     try_except
       (thn (read_state did) (\<lambda>d.
        thn (http w (GetDidDocument d)) (\<lambda>response.
        if status_code response = 200 then
          thn (lift (response_json response)) (\<lambda>did_doc.
          thn (lift (py_get did_doc ''service'' (PList []))) (\<lambda>services.
          thn (lift (py_iter services)) (\<lambda>items.
          find_pds w items)))
        else seq (say (DidDocumentFailed (status_code response))) (ret PNone))))
       (\<lambda>e. seq (say (PdsDidError e)) (ret PNone))"

definition get_service_auth :: "world \<Rightarrow> pyval io" where
  "get_service_auth w =
     try_except
       (thn (get_user_pds_did w) (\<lambda>pds_did.
        if \<not> truthy pds_did then seq (say NoPdsDid) (ret PNone)
        else
          thn (read_state access_token) (\<lambda>tok.
          thn (read_state (\<lambda>s. time_now w (trace s))) (\<lambda>t.
          thn (http w (GetServiceAuth tok pds_did (t + 1800))) (\<lambda>response.
          if status_code response = 200 then
            thn (lift (response_json response)) (\<lambda>body.
            lift (py_item body ''token''))
          else seq (say (ServiceAuthFailed (status_code response))) (ret PNone))))))
       (\<lambda>e. seq (say (ServiceAuthError e)) (ret PNone))"

text \<open>
  One pass through the body of \<^verbatim>\<open>for attempt in range(max_attempts)\<close> in
  \<^verbatim>\<open>wait_for_video_processing\<close>; \<open>continue\<close> is the rest of the loop, entered by
  each \<^verbatim>\<open>continue\<close> statement.
\<close>

definition poll_attempt :: "world \<Rightarrow> pyval \<Rightarrow> pyval \<Rightarrow> pyval io \<Rightarrow> pyval io" where
  "poll_attempt w service_auth job_id continue =
     thn (http w (GetJobStatus service_auth job_id)) (\<lambda>response.
     if status_code response = 200 then
       thn (lift (response_json response)) (\<lambda>job_status_response.
       thn (lift (py_get job_status_response ''jobStatus'' (PDict []))) (\<lambda>job_status.
       thn (lift (py_get job_status ''state'' PNone)) (\<lambda>st.
       if st = PStr ''JOB_STATE_COMPLETED'' then
         thn (lift (py_get job_status ''blob'' PNone)) (\<lambda>blob_ref.
         if truthy blob_ref then ret blob_ref
         else seq (say CompleteButNoBlob) (ret PNone))
       else if st = PStr ''JOB_STATE_FAILED'' then
         thn (lift (py_get job_status ''error'' (PStr ''Unknown error''))) (\<lambda>err.
         seq (say (ProcessingFailed err)) (ret PNone))
       else if st \<in> set [PStr ''JOB_STATE_CREATED'', PStr ''JOB_STATE_RUNNING'',
                          PStr ''JOB_STATE_ENCODING''] then
         seq (sleep 10) continue
       else
         seq (say (UnknownJobState st)) (seq (sleep 10) continue))))
     else
       seq (say (StatusCheckFailed (status_code response))) (seq (sleep 10) continue))"

text \<open>
  The loop, by the number of attempts left; falling out of it reports the timeout.
\<close>

fun poll_loop :: "world \<Rightarrow> pyval \<Rightarrow> pyval \<Rightarrow> nat \<Rightarrow> pyval io" where
  "poll_loop w service_auth job_id 0 = seq (say ProcessingTimedOut) (ret PNone)"
| "poll_loop w service_auth job_id (Suc n) =
     poll_attempt w service_auth job_id (poll_loop w service_auth job_id n)"

definition max_attempts :: nat where
  "max_attempts = 30"

definition wait_for_video_processing :: "world \<Rightarrow> pyval \<Rightarrow> pyval io" where
  "wait_for_video_processing w job_id =
     try_except
       (thn (get_service_auth w) (\<lambda>service_auth.
        if \<not> truthy service_auth then ret PNone
        else poll_loop w service_auth job_id max_attempts))
       (\<lambda>e. seq (say (WaitError e)) (ret PNone))"

definition get_completed_job_blob :: "world \<Rightarrow> pyval \<Rightarrow> pyval io" where
  "get_completed_job_blob w job_id =
     try_except
       (thn (get_service_auth w) (\<lambda>service_auth.
        if \<not> truthy service_auth then ret PNone
        else
          thn (http w (GetJobStatus service_auth job_id)) (\<lambda>response.
          if status_code response = 200 then
            thn (lift (response_json response)) (\<lambda>job_status_response.
            thn (lift (py_get job_status_response ''jobStatus'' (PDict []))) (\<lambda>job_status.
            thn (lift (py_get job_status ''blob'' PNone)) (\<lambda>blob_ref.
            if truthy blob_ref then ret blob_ref
            else seq (say NoBlobInJobStatus) (ret PNone))))
          else seq (say (JobStatusFailed (status_code response))) (ret PNone))))
       (\<lambda>e. seq (say (CompletedJobError e)) (ret PNone))"

text \<open>The dictionary \<^verbatim>\<open>upload_video\<close> returns on success.\<close>

definition video_result_of :: "pyval \<Rightarrow> pyval \<Rightarrow> pyval" where
  "video_result_of blob_ref job_id =
     PDict [(''blob'', blob_ref), (''jobId'', job_id), (''state'', PStr ''completed'')]"

text \<open>
  \<^verbatim>\<open>urllib.parse.quote(self.did, safe='')\<close> raises \<^verbatim>\<open>TypeError\<close> unless the DID is a
  string; the request carries the DID itself rather than its percent-encoding.
\<close>

definition quote_did :: "pyval \<Rightarrow> exn + string" where
  "quote_did d = (case d of PStr x \<Rightarrow> Inr x | _ \<Rightarrow> Inl TypeError)"

definition os_result :: "'a option \<Rightarrow> exn + 'a" where
  "os_result r = (case r of None \<Rightarrow> Inl OSError | Some x \<Rightarrow> Inr x)"

definition upload_video :: "world \<Rightarrow> string \<Rightarrow> pyval io" where
  "upload_video w video_path =
     try_except
       (thn (get_service_auth w) (\<lambda>service_auth.
        if \<not> truthy service_auth then ret PNone
        else
          thn (lift (os_result (stat_size w video_path))) (\<lambda>file_size.
          thn (lift (os_result (read_bytes w video_path))) (\<lambda>video_data.
          thn (read_state did) (\<lambda>d.
          thn (lift (quote_did d)) (\<lambda>encoded_did.
          thn (http w (UploadVideo service_auth encoded_did video_data)) (\<lambda>response.
          if status_code response = 200 then
            thn (lift (response_json response)) (\<lambda>upload_result.
            thn (lift (py_get upload_result ''jobId'' PNone)) (\<lambda>job_id.
            if truthy job_id then
              thn (wait_for_video_processing w job_id) (\<lambda>blob_ref.
              if truthy blob_ref then ret (video_result_of blob_ref job_id)
              else seq (say NoBlobAfterProcessing) (ret PNone))
            else seq (say NoJobId) (ret PNone)))
          else if status_code response = 409 then
            thn (lift (response_json response)) (\<lambda>upload_result.
            thn (lift (py_get upload_result ''jobId'' PNone)) (\<lambda>job_id.
            thn (lift (py_get upload_result ''state'' PNone)) (\<lambda>st.
            if st = PStr ''JOB_STATE_COMPLETED'' \<and> truthy job_id then
              thn (get_completed_job_blob w job_id) (\<lambda>blob_ref.
              if truthy blob_ref then ret (video_result_of blob_ref job_id)
              else seq (say NoBlobFromCompletedJob) (ret PNone))
            else seq (say (UnexpectedExistingState st)) (ret PNone))))
          else seq (say (UploadFailed (status_code response))) (ret PNone))))))))
       (\<lambda>e. seq (say (UploadError e)) (ret PNone))"

text \<open>
  The record \<^verbatim>\<open>create_post_with_video\<close> builds before it posts it: the first statements
  of the function, with the time stamp as an argument. Only a dictionary has
  \<^verbatim>\<open>.get\<close> and is then tested with \<^verbatim>\<open>in\<close>.
\<close>

definition build_record :: "string \<Rightarrow> string \<Rightarrow> pyval \<Rightarrow> string \<Rightarrow> exn + pyval" where
  "build_record text created_at video_result alt_text =
     (case video_result of
        PDict kvs \<Rightarrow>
          Inr (PDict
            [(''$type'', PStr ''app.bsky.feed.post''),
             (''text'', PStr text),
             (''createdAt'', PStr created_at),
             (''embed'', PDict
                ([(''$type'', PStr ''app.bsky.embed.video''),
                  (''video'', (case map_of kvs ''blob'' of Some b \<Rightarrow> b | None \<Rightarrow> PNone))]
                 @ (if alt_text \<noteq> [] then [(''alt'', PStr alt_text)] else [])
                 @ (case map_of kvs ''aspectRatio'' of
                      Some a \<Rightarrow> [(''aspectRatio'', a)]
                    | None \<Rightarrow> [])))])
      | _ \<Rightarrow> Inl AttributeError)"

definition create_post_with_video :: "world \<Rightarrow> string \<Rightarrow> pyval \<Rightarrow> string \<Rightarrow> pyval io" where
  "create_post_with_video w text video_result alt_text =
     try_except
       (thn (read_state (\<lambda>s. utc_now_iso w (trace s))) (\<lambda>created_at.
        thn (lift (build_record text created_at video_result alt_text)) (\<lambda>record.
        thn (read_state access_token) (\<lambda>tok.
        thn (read_state did) (\<lambda>d.
        thn (http w (CreateRecord tok d record)) (\<lambda>response.
        if status_code response = 200 then lift (response_json response)
        else seq (say (PostCreationFailed (status_code response))) (ret PNone)))))))
       (\<lambda>e. seq (say (PostCreationError e)) (ret PNone))"

section \<open>SunriseTimelapse.post_to_bluesky\<close>

record bluesky_config =
  cfg_handle :: string
  cfg_password :: string

text \<open>
  \<^verbatim>\<open>size_mb = st_size / (1024 * 1024)\<close> followed by \<^verbatim>\<open>size_mb > 50\<close>: the division by a
  power of two is exact on a file size, so the test is a comparison of natural numbers.
\<close>

definition too_large :: "nat \<Rightarrow> bool" where
  "too_large st_size \<longleftrightarrow> st_size > 50 * (1024 * 1024)"

text \<open>
  After a truthy \<^verbatim>\<open>post_result\<close> the function calls \<^verbatim>\<open>post_result.get\<close>, which only a
  dictionary has; the logging of the direct link that follows cannot change the result.
\<close>

definition post_to_bluesky ::
  "world \<Rightarrow> bluesky_config \<Rightarrow> string \<Rightarrow> string \<Rightarrow> string \<Rightarrow> bool io" where
  "post_to_bluesky w cfg video_path description sunrise_hms =
     (if cfg_handle cfg = ''handle.bsky.social'' \<or> cfg_password cfg = ''''
      then seq (say CredentialsNotConfigured) (ret False)
      else
        try_except
          (thn init_client (\<lambda>_.
           thn (create_session w (cfg_handle cfg) (cfg_password cfg)) (\<lambda>ok.
           if \<not> ok then ret False
           else
             thn (lift (os_result (stat_size w video_path))) (\<lambda>st_size.
             if too_large st_size then seq (say VideoTooLarge) (ret False)
             else
               thn (upload_video w video_path) (\<lambda>video_result.
               if \<not> truthy video_result then seq (say VideoUploadFailed) (ret False)
               else
                 thn (read_state (\<lambda>s. today_formatted w (trace s))) (\<lambda>today.
                 thn (create_post_with_video w
                        (description @ [CHR 0x0A, CHR 0x0A] @ ''Sunrise: '' @ sunrise_hms
                           @ '' '' @ today)
                        video_result ''Southampton sunrise timelapse'') (\<lambda>post_result.
                 if truthy post_result then
                   thn (lift (py_get post_result ''uri'' (PStr ''unknown''))) (\<lambda>_. ret True)
                 else seq (say PostFailed) (ret False))))))))
          (\<lambda>e. seq (say (PostingError e)) (ret False)))"

section \<open>Reading a trace\<close>

fun requests :: "event list \<Rightarrow> request list" where
  "requests [] = []"
| "requests (Net r # es) = r # requests es"
| "requests (_ # es) = requests es"

fun sleeps :: "event list \<Rightarrow> nat list" where
  "sleeps [] = []"
| "sleeps (Sleep n # es) = n # sleeps es"
| "sleeps (_ # es) = sleeps es"

fun messages :: "event list \<Rightarrow> msg list" where
  "messages [] = []"
| "messages (Say m # es) = m # messages es"
| "messages (_ # es) = messages es"

fun is_status_query :: "request \<Rightarrow> bool" where
  "is_status_query (GetJobStatus _ _) = True"
| "is_status_query _ = False"

fun is_directory_lookup :: "request \<Rightarrow> bool" where
  "is_directory_lookup (GetDidDocument _) = True"
| "is_directory_lookup _ = False"

fun is_create_record :: "request \<Rightarrow> bool" where
  "is_create_record (CreateRecord _ _ _) = True"
| "is_create_record _ = False"

definition dir_lookups :: "event list \<Rightarrow> nat" where
  "dir_lookups evs = length (filter is_directory_lookup (requests evs))"

definition status_queries :: "event list \<Rightarrow> nat" where
  "status_queries evs = length (filter is_status_query (requests evs))"

definition record_posts :: "event list \<Rightarrow> nat" where
  "record_posts evs = length (filter is_create_record (requests evs))"

fun is_processing_failed :: "msg \<Rightarrow> bool" where
  "is_processing_failed (ProcessingFailed _) = True"
| "is_processing_failed _ = False"

definition reports_failed :: "event list \<Rightarrow> bool" where
  "reports_failed evs \<longleftrightarrow> list_ex is_processing_failed (messages evs)"

definition timed_out :: "event list \<Rightarrow> bool" where
  "timed_out evs \<longleftrightarrow> ProcessingTimedOut \<in> set (messages evs)"

text \<open>Events that neither query a job, post a record, sleep nor report the poller's verdict.\<close>

definition calm :: "event list \<Rightarrow> bool" where
  "calm evs \<longleftrightarrow> status_queries evs = 0 \<and> record_posts evs = 0 \<and> sleeps evs = [] \<and>
     \<not> reports_failed evs \<and> \<not> timed_out evs"

text \<open>
  \<open>io_sat m Q\<close>: from every state, \<open>m\<close> ends (with a value or an exception), only adds
  events to the trace, and its outcome and the events it added satisfy \<open>Q\<close>.
\<close>

definition io_sat :: "'a io \<Rightarrow> ((exn + 'a) \<Rightarrow> event list \<Rightarrow> bool) \<Rightarrow> bool" where
  "io_sat m Q \<longleftrightarrow> (\<forall>s. \<exists>r s' evs. m s = (r, s') \<and> trace s' = trace s @ evs \<and> Q r evs)"

text \<open>The state a job-status response reports, as the poller reads it.\<close>

definition job_state :: "response \<Rightarrow> exn + pyval" where
  "job_state r =
     (case response_json r of
        Inl e \<Rightarrow> Inl e
      | Inr body \<Rightarrow>
          (case py_get body ''jobStatus'' (PDict []) of
             Inl e \<Rightarrow> Inl e
           | Inr job_status \<Rightarrow> py_get job_status ''state'' PNone))"

text \<open>A response after which the poller sleeps and asks again.\<close>

definition non_terminal :: "response \<Rightarrow> bool" where
  "non_terminal r \<longleftrightarrow>
     status_code r \<noteq> 200 \<or>
     (case job_state r of
        Inl e \<Rightarrow> False
      | Inr st \<Rightarrow> st \<noteq> PStr ''JOB_STATE_COMPLETED'' \<and> st \<noteq> PStr ''JOB_STATE_FAILED'')"

text \<open>The blob a job-status response carries, as the client reads it.\<close>

definition job_blob :: "response \<Rightarrow> exn + pyval" where
  "job_blob r =
     (case response_json r of
        Inl e \<Rightarrow> Inl e
      | Inr body \<Rightarrow>
          (case py_get body ''jobStatus'' (PDict []) of
             Inl e \<Rightarrow> Inl e
           | Inr job_status \<Rightarrow> py_get job_status ''blob'' PNone))"

text \<open>An answer to a status query from which the client gets a blob reference.\<close>

definition carries_blob :: "response option \<Rightarrow> bool" where
  "carries_blob answer \<longleftrightarrow>
     (case answer of
        None \<Rightarrow> False
      | Some r \<Rightarrow>
          status_code r = 200 \<and> (case job_blob r of Inl e \<Rightarrow> False | Inr b \<Rightarrow> truthy b))"

text \<open>A service entry that names the personal data store and gives it an endpoint.\<close>

definition has_pds_endpoint :: "pyval \<Rightarrow> bool" where
  "has_pds_endpoint service \<longleftrightarrow>
     py_get service ''id'' PNone = Inr (PStr ''#atproto_pds'') \<and>
     (case py_get service ''serviceEndpoint'' (PStr '''') of
        Inl e \<Rightarrow> False
      | Inr pds_url \<Rightarrow> truthy pds_url)"

section \<open>A scripted server for concrete runs\<close>

definition json_response :: "int \<Rightarrow> pyval \<Rightarrow> response" where
  "json_response code v = \<lparr>status_code = code, json_body = Some v\<rparr>"

definition file_bytes :: "nat \<Rightarrow> string" where
  "file_bytes n = replicate n CHR ''v''"

definition job_status_response :: "string \<Rightarrow> (string \<times> pyval) list \<Rightarrow> response" where
  "job_status_response st extra =
     json_response 200 (PDict [(''jobStatus'', PDict ((''state'', PStr st) # extra))])"

definition demo_blob :: pyval where
  "demo_blob = PDict [(''ref'', PStr ''bafy123''), (''mimeType'', PStr ''video/mp4'')]"

definition did_document :: "pyval list \<Rightarrow> response" where
  "did_document services = json_response 200 (PDict [(''service'', PList services)])"

definition pds_service :: pyval where
  "pds_service =
     PDict [(''id'', PStr ''#atproto_pds''),
            (''serviceEndpoint'', PStr ''https://pds.example.com'')]"

text \<open>
  A server that accepts the login, serves the given DID document, issues tokens, answers
  the upload with \<open>upload_response\<close> and the \<open>k\<close>-th status query (from 0) with
  \<open>status_response k\<close>, and accepts the post; the video file has \<open>n\<close> bytes.
\<close>

definition demo_world :: "nat \<Rightarrow> response \<Rightarrow> response \<Rightarrow> (nat \<Rightarrow> response) \<Rightarrow> world" where
  "demo_world n document upload_response status_response =
     \<lparr>respond = (\<lambda>tr rq. case rq of
          CreateSession i p \<Rightarrow>
            Some (json_response 200 (PDict [(''accessJwt'', PStr ''jwt''),
              (''did'', PStr ''did:plc:abc123''), (''handle'', PStr i)]))
        | GetDidDocument d \<Rightarrow> Some document
        | GetServiceAuth t a e \<Rightarrow> Some (json_response 200 (PDict [(''token'', PStr ''svc'')]))
        | UploadVideo t d data \<Rightarrow> Some upload_response
        | GetJobStatus t j \<Rightarrow> Some (status_response (status_queries tr))
        | CreateRecord t r rc \<Rightarrow>
            Some (json_response 200 (PDict
              [(''uri'', PStr ''at://did:plc:abc123/app.bsky.feed.post/xyz789'')]))),
      urlparse_netloc = (\<lambda>u. Some (drop 8 u)),
      time_now = (\<lambda>tr. 1754197200),
      utc_now_iso = (\<lambda>tr. ''2025-08-03T05:00:00Z''),
      today_formatted = (\<lambda>tr. ''2025-08-03''),
      stat_size = (\<lambda>p. Some n),
      read_bytes = (\<lambda>p. Some (file_bytes n))\<rparr>"

definition demo_config :: bluesky_config where
  "demo_config = \<lparr>cfg_handle = ''alice.bsky.social'', cfg_password = ''app-password''\<rparr>"

definition fresh :: state where
  "fresh = \<lparr>access_token = PNone, did = PNone, handle = PNone, trace = []\<rparr>"

definition logged_in :: state where
  "logged_in = \<lparr>access_token = PStr ''jwt'', did = PStr ''did:plc:abc123'',
     handle = PStr ''alice.bsky.social'', trace = []\<rparr>"

definition accepted :: response where
  "accepted = json_response 200 (PDict [(''jobId'', PStr ''job-1'')])"

definition conflict :: "string \<Rightarrow> response" where
  "conflict st = json_response 409 (PDict [(''jobId'', PStr ''job-1''), (''state'', PStr st)])"

definition progress :: "nat \<Rightarrow> response" where
  "progress k =
     (if k = 0 then job_status_response ''JOB_STATE_RUNNING'' []
      else if k = 1 then job_status_response ''JOB_STATE_ENCODING'' []
      else job_status_response ''JOB_STATE_COMPLETED'' [(''blob'', demo_blob)])"

definition failing :: "nat \<Rightarrow> response" where
  "failing k =
     (if k = 0 then job_status_response ''JOB_STATE_RUNNING'' []
      else job_status_response ''JOB_STATE_FAILED'' [(''error'', PStr ''transcode error'')])"

definition completed :: "nat \<Rightarrow> response" where
  "completed k = job_status_response ''JOB_STATE_COMPLETED'' [(''blob'', demo_blob)]"

definition stuck :: "nat \<Rightarrow> response" where
  "stuck k = job_status_response ''JOB_STATE_RUNNING'' []"

definition unavailable :: "nat \<Rightarrow> response" where
  "unavailable k = \<lparr>status_code = 503, json_body = None\<rparr>"

definition scanning :: "nat \<Rightarrow> response" where
  "scanning k = job_status_response ''JOB_STATE_SCANNING'' []"

fun is_upload :: "request \<Rightarrow> bool" where
  "is_upload (UploadVideo _ _ _) = True"
| "is_upload _ = False"

text \<open>The same server, except that it refuses every token asked for after an upload.\<close>

definition no_token_after_upload :: "world \<Rightarrow> world" where
  "no_token_after_upload w =
     w\<lparr>respond := (\<lambda>tr rq. case rq of
          GetServiceAuth t a e \<Rightarrow>
            if list_ex is_upload (requests tr)
            then Some \<lparr>status_code = 401, json_body = None\<rparr>
            else respond w tr rq
        | _ \<Rightarrow> respond w tr rq)\<rparr>"

section \<open>Evaluation and trace lemmas\<close>

declare poll_loop.simps [simp del] find_pds.simps [simp del]

lemmas io_defs = ret_def raise_def lift_def thn_def seq_def try_except_def emit_def say_def
  sleep_def http_def read_state_def

lemma poll_loop_zero: "poll_loop w a j 0 s = seq (say ProcessingTimedOut) (ret PNone) s"
  by (simp add: poll_loop.simps)

lemma poll_loop_step:
  "poll_loop w a j (Suc n) s = poll_attempt w a j (poll_loop w a j n) s"
  by (simp add: poll_loop.simps)

lemma poll_loop_numeral:
  "poll_loop w a j (numeral k) s = poll_attempt w a j (poll_loop w a j (pred_numeral k)) s"
  by (simp add: numeral_eq_Suc poll_loop.simps)

lemma find_pds_nil: "find_pds w [] s = seq (say PdsServiceNotFound) (ret PNone) s"
  by (simp add: find_pds.simps)

lemma find_pds_cons:
  "find_pds w (service # rest) s =
     thn (lift (py_get service ''id'' PNone)) (\<lambda>i.
     if i = PStr ''#atproto_pds'' then
       thn (lift (py_get service ''serviceEndpoint'' (PStr ''''))) (\<lambda>pds_url.
       if truthy pds_url then
         (case pds_url of
            PStr u \<Rightarrow>
              (case urlparse_netloc w u of
                 None \<Rightarrow> raise ValueError
               | Some netloc \<Rightarrow> ret (PStr (''did:web:'' @ netloc)))
          | _ \<Rightarrow> raise AttributeError)
       else find_pds w rest)
     else find_pds w rest) s"
  by (simp add: find_pds.simps)

lemma poll_attempt_run:
  "poll_attempt w service_auth job_id continue s =
     thn (http w (GetJobStatus service_auth job_id)) (\<lambda>response.
     if status_code response = 200 then
       thn (lift (response_json response)) (\<lambda>job_status_response.
       thn (lift (py_get job_status_response ''jobStatus'' (PDict []))) (\<lambda>job_status.
       thn (lift (py_get job_status ''state'' PNone)) (\<lambda>st.
       if st = PStr ''JOB_STATE_COMPLETED'' then
         thn (lift (py_get job_status ''blob'' PNone)) (\<lambda>blob_ref.
         if truthy blob_ref then ret blob_ref
         else seq (say CompleteButNoBlob) (ret PNone))
       else if st = PStr ''JOB_STATE_FAILED'' then
         thn (lift (py_get job_status ''error'' (PStr ''Unknown error''))) (\<lambda>err.
         seq (say (ProcessingFailed err)) (ret PNone))
       else if st \<in> set [PStr ''JOB_STATE_CREATED'', PStr ''JOB_STATE_RUNNING'',
                          PStr ''JOB_STATE_ENCODING''] then
         seq (sleep 10) continue
       else
         seq (say (UnknownJobState st)) (seq (sleep 10) continue))))
     else
       seq (say (StatusCheckFailed (status_code response))) (seq (sleep 10) continue)) s"
  by (simp add: poll_attempt_def)

lemmas client_defs = create_session_def get_user_pds_did_def get_service_auth_def
  wait_for_video_processing_def get_completed_job_blob_def upload_video_def
  create_post_with_video_def build_record_def init_client_def response_json_def os_result_def
  quote_did_def video_result_of_def too_large_def max_attempts_def

lemmas demo_defs = demo_world_def demo_config_def fresh_def logged_in_def json_response_def
  job_status_response_def accepted_def conflict_def progress_def failing_def completed_def
  stuck_def unavailable_def scanning_def no_token_after_upload_def demo_blob_def did_document_def pds_service_def

lemmas run_steps = post_to_bluesky_def client_defs io_defs demo_defs poll_loop_zero
  poll_loop_step poll_loop_numeral poll_attempt_run find_pds_nil find_pds_cons
  status_queries_def dir_lookups_def record_posts_def reports_failed_def timed_out_def

lemma requests_append: "requests (xs @ ys) = requests xs @ requests ys"
  by (induction xs rule: requests.induct) simp_all

lemma sleeps_append: "sleeps (xs @ ys) = sleeps xs @ sleeps ys"
  by (induction xs rule: sleeps.induct) simp_all

lemma messages_append: "messages (xs @ ys) = messages xs @ messages ys"
  by (induction xs rule: messages.induct) simp_all

lemma counts_append [simp]:
  "dir_lookups (xs @ ys) = dir_lookups xs + dir_lookups ys"
  "status_queries (xs @ ys) = status_queries xs + status_queries ys"
  "record_posts (xs @ ys) = record_posts xs + record_posts ys"
  "reports_failed (xs @ ys) \<longleftrightarrow> reports_failed xs \<or> reports_failed ys"
  "timed_out (xs @ ys) \<longleftrightarrow> timed_out xs \<or> timed_out ys"
  by (simp_all add: dir_lookups_def status_queries_def record_posts_def reports_failed_def
      timed_out_def requests_append messages_append)

lemma counts_Nil [simp]:
  "dir_lookups [] = 0" "status_queries [] = 0" "record_posts [] = 0" "\<not> reports_failed []"
  "\<not> timed_out []"
  by (simp_all add: dir_lookups_def status_queries_def record_posts_def reports_failed_def
      timed_out_def)

lemma counts_Cons [simp]:
  "dir_lookups (Say m # evs) = dir_lookups evs"
  "status_queries (Say m # evs) = status_queries evs"
  "record_posts (Say m # evs) = record_posts evs"
  "reports_failed (Say m # evs) \<longleftrightarrow> is_processing_failed m \<or> reports_failed evs"
  "dir_lookups (Sleep k # evs) = dir_lookups evs"
  "status_queries (Sleep k # evs) = status_queries evs"
  "record_posts (Sleep k # evs) = record_posts evs"
  "reports_failed (Sleep k # evs) \<longleftrightarrow> reports_failed evs"
  "dir_lookups (Net rq # evs) = (if is_directory_lookup rq then 1 else 0) + dir_lookups evs"
  "status_queries (Net rq # evs) = (if is_status_query rq then 1 else 0) + status_queries evs"
  "record_posts (Net rq # evs) = (if is_create_record rq then 1 else 0) + record_posts evs"
  "reports_failed (Net rq # evs) \<longleftrightarrow> reports_failed evs"
  "timed_out (Say m # evs) \<longleftrightarrow> m = ProcessingTimedOut \<or> timed_out evs"
  "timed_out (Sleep k # evs) \<longleftrightarrow> timed_out evs"
  "timed_out (Net rq # evs) \<longleftrightarrow> timed_out evs"
  by (auto simp: dir_lookups_def status_queries_def record_posts_def reports_failed_def
      timed_out_def)

lemma calm_simps [simp]:
  "calm []"
  "calm (Say m # evs) \<longleftrightarrow> \<not> is_processing_failed m \<and> m \<noteq> ProcessingTimedOut \<and> calm evs"
  "calm (Net rq # evs) \<longleftrightarrow> \<not> is_status_query rq \<and> \<not> is_create_record rq \<and> calm evs"
  "\<not> calm (Sleep k # evs)"
  "calm (xs @ ys) \<longleftrightarrow> calm xs \<and> calm ys"
  by (auto simp: calm_def sleeps_append)

section \<open>Rules for \<open>io_sat\<close>\<close>

lemma io_satE:
  assumes "io_sat m Q"
  obtains r s' evs where "m s = (r, s')" and "trace s' = trace s @ evs" and "Q r evs"
  using assms unfolding io_sat_def by blast

lemma sat_weaken: "io_sat m Q' \<Longrightarrow> (\<And>r evs. Q' r evs \<Longrightarrow> Q r evs) \<Longrightarrow> io_sat m Q"
  unfolding io_sat_def by blast

lemma sat_ret: "Q (Inr x) [] \<Longrightarrow> io_sat (ret x) Q"
  by (simp add: io_sat_def ret_def)

lemma sat_raise: "Q (Inl e) [] \<Longrightarrow> io_sat (raise e) Q"
  by (simp add: io_sat_def raise_def)

lemma sat_lift: "Q r [] \<Longrightarrow> io_sat (lift r) Q"
  by (simp add: io_sat_def lift_def)

lemma sat_read_state: "(\<And>x. Q (Inr x) []) \<Longrightarrow> io_sat (read_state f) Q"
  by (simp add: io_sat_def read_state_def)

lemma sat_emit: "Q (Inr ()) [e] \<Longrightarrow> io_sat (emit e) Q"
  by (simp add: io_sat_def emit_def)

lemma sat_say: "Q (Inr ()) [Say m] \<Longrightarrow> io_sat (say m) Q"
  by (simp add: say_def sat_emit)

lemma sat_sleep: "Q (Inr ()) [Sleep n] \<Longrightarrow> io_sat (sleep n) Q"
  by (simp add: sleep_def sat_emit)

lemma sat_http:
  "Q (Inl RequestException) [Net rq] \<Longrightarrow> (\<And>r. Q (Inr r) [Net rq]) \<Longrightarrow> io_sat (http w rq) Q"
  by (simp add: io_sat_def http_def split: option.splits)

lemma sat_update:
  "(\<And>s. trace (f s) = trace s) \<Longrightarrow> Q (Inr ()) [] \<Longrightarrow> io_sat (\<lambda>s. (Inr (), f s)) Q"
  by (simp add: io_sat_def)

lemma sat_thn:
  assumes "io_sat m (\<lambda>r evs. case r of Inl e \<Rightarrow> Q (Inl e) evs
                               | Inr x \<Rightarrow> io_sat (f x) (\<lambda>r' evs'. Q r' (evs @ evs')))"
  shows "io_sat (thn m f) Q"
  unfolding io_sat_def
proof
  fix s
  from assms obtain r s' evs where m: "m s = (r, s')" "trace s' = trace s @ evs"
    and q: "case r of Inl e \<Rightarrow> Q (Inl e) evs
            | Inr x \<Rightarrow> io_sat (f x) (\<lambda>r' evs'. Q r' (evs @ evs'))"
    unfolding io_sat_def by blast
  show "\<exists>r s' evs. thn m f s = (r, s') \<and> trace s' = trace s @ evs \<and> Q r evs"
  proof (cases r)
    case (Inl e)
    with m q show ?thesis by (auto simp: thn_def)
  next
    case (Inr x)
    with q obtain r' s'' evs' where "f x s' = (r', s'')" "trace s'' = trace s' @ evs'"
      "Q r' (evs @ evs')"
      unfolding io_sat_def by auto blast
    with m Inr show ?thesis by (auto simp: thn_def)
  qed
qed

lemma sat_seq:
  "io_sat m (\<lambda>r evs. case r of Inl e \<Rightarrow> Q (Inl e) evs
                      | Inr x \<Rightarrow> io_sat k (\<lambda>r' evs'. Q r' (evs @ evs'))) \<Longrightarrow> io_sat (seq m k) Q"
  unfolding seq_def by (rule sat_thn)

lemma sat_try:
  assumes "io_sat m (\<lambda>r evs. case r of Inr x \<Rightarrow> Q (Inr x) evs
                               | Inl e \<Rightarrow> io_sat (h e) (\<lambda>r' evs'. Q r' (evs @ evs')))"
  shows "io_sat (try_except m h) Q"
  unfolding io_sat_def
proof
  fix s
  from assms obtain r s' evs where m: "m s = (r, s')" "trace s' = trace s @ evs"
    and q: "case r of Inr x \<Rightarrow> Q (Inr x) evs
            | Inl e \<Rightarrow> io_sat (h e) (\<lambda>r' evs'. Q r' (evs @ evs'))"
    unfolding io_sat_def by blast
  show "\<exists>r s' evs. try_except m h s = (r, s') \<and> trace s' = trace s @ evs \<and> Q r evs"
  proof (cases r)
    case (Inr x)
    with m q show ?thesis by (auto simp: try_except_def)
  next
    case (Inl e)
    with q obtain r' s'' evs' where "h e s' = (r', s'')" "trace s'' = trace s' @ evs'"
      "Q r' (evs @ evs')"
      unfolding io_sat_def by auto blast
    with m Inl show ?thesis by (auto simp: try_except_def)
  qed
qed

lemma sat_if: "(c \<Longrightarrow> io_sat a Q) \<Longrightarrow> (\<not> c \<Longrightarrow> io_sat b Q) \<Longrightarrow> io_sat (if c then a else b) Q"
  by simp

lemma sat_init_client: "Q (Inr ()) [] \<Longrightarrow> io_sat init_client Q"
  by (simp add: io_sat_def init_client_def)

lemmas sat_intros = sat_try sat_thn sat_seq sat_ret sat_raise sat_lift sat_read_state sat_say
  sat_sleep sat_http sat_if sat_init_client

section \<open>What each function adds to the trace\<close>

lemma create_session_sat:
  "io_sat (create_session w i p)
     (\<lambda>r evs. \<not> isl r \<and> requests evs = [CreateSession i p] \<and> calm evs \<and> dir_lookups evs = 0)"
  unfolding create_session_def
  by (rule sat_intros sat_update conjI impI allI | clarsimp split: sum.splits)+

lemma find_pds_sat:
  "io_sat (find_pds w items) (\<lambda>r evs. calm evs \<and> dir_lookups evs = 0)"
proof (induction items)
  case Nil
  show ?case
    unfolding find_pds.simps by (rule sat_intros conjI | simp)+
next
  case (Cons service rest)
  show ?case
    unfolding find_pds.simps
    by (rule sat_intros sat_weaken [OF Cons] conjI impI allI
        | clarsimp split: sum.splits pyval.splits option.splits)+
qed

lemma get_user_pds_did_sat:
  "io_sat (get_user_pds_did w) (\<lambda>r evs. \<not> isl r \<and> calm evs \<and> dir_lookups evs = 1)"
  unfolding get_user_pds_did_def
  by (rule sat_intros sat_weaken [OF find_pds_sat] conjI impI allI
      | clarsimp split: sum.splits)+

lemma get_service_auth_sat:
  "io_sat (get_service_auth w) (\<lambda>r evs. \<not> isl r \<and> calm evs \<and> dir_lookups evs = 1)"
  unfolding get_service_auth_def
  by (rule sat_intros sat_weaken [OF get_user_pds_did_sat] conjI impI allI
      | clarsimp split: sum.splits)+

lemma poll_loop_sat:
  "io_sat (poll_loop w a j n)
     (\<lambda>r evs. dir_lookups evs = 0 \<and> record_posts evs = 0 \<and> status_queries evs \<le> n \<and>
        (\<forall>k\<in>set (sleeps evs). k = 10) \<and> length (sleeps evs) \<le> status_queries evs \<and>
        (length (sleeps evs) = n \<longleftrightarrow> timed_out evs) \<and>
        (timed_out evs \<or> reports_failed evs \<longrightarrow> r = Inr PNone))"
proof (induction n)
  case 0
  show ?case
    unfolding poll_loop.simps by (rule sat_intros conjI impI | simp)+
next
  case (Suc n)
  show ?case
    unfolding poll_loop.simps poll_attempt_def
    by (rule sat_intros sat_weaken [OF Suc] conjI impI allI
        | clarsimp simp: sleeps_append split: sum.splits)+
qed

lemma wait_for_video_processing_sat:
  "io_sat (wait_for_video_processing w j)
     (\<lambda>r evs. \<not> isl r \<and> dir_lookups evs = 1 \<and> record_posts evs = 0 \<and>
        status_queries evs \<le> 30 \<and>
        (\<forall>k\<in>set (sleeps evs). k = 10) \<and> length (sleeps evs) \<le> status_queries evs \<and>
        (length (sleeps evs) = 30 \<longleftrightarrow> timed_out evs) \<and>
        (timed_out evs \<or> reports_failed evs \<longrightarrow> r = Inr PNone))"
  unfolding wait_for_video_processing_def max_attempts_def
  by (rule sat_intros sat_weaken [OF get_service_auth_sat] sat_weaken [OF poll_loop_sat]
        conjI impI allI
      | clarsimp simp: sleeps_append calm_def split: sum.splits)+

lemma get_completed_job_blob_sat:
  "io_sat (get_completed_job_blob w j)
     (\<lambda>r evs. \<not> isl r \<and> dir_lookups evs = 1 \<and> record_posts evs = 0 \<and>
        status_queries evs \<le> 1 \<and> sleeps evs = [] \<and> \<not> reports_failed evs \<and> \<not> timed_out evs \<and>
        (\<forall>v. r = Inr v \<and> truthy v \<longrightarrow> status_queries evs = 1))"
  unfolding get_completed_job_blob_def
  by (rule sat_intros sat_weaken [OF get_service_auth_sat] conjI impI allI
      | clarsimp simp: sleeps_append calm_def split: sum.splits)+

lemma upload_video_sat:
  "io_sat (upload_video w path)
     (\<lambda>r evs. \<not> isl r \<and> 1 \<le> dir_lookups evs \<and> dir_lookups evs \<le> 2 \<and> record_posts evs = 0 \<and>
        (reports_failed evs \<longrightarrow> r = Inr PNone))"
  unfolding upload_video_def
  by (rule sat_intros sat_weaken [OF get_service_auth_sat]
        sat_weaken [OF wait_for_video_processing_sat] sat_weaken [OF get_completed_job_blob_sat]
        conjI impI allI
      | clarsimp simp: calm_def split: sum.splits)+

lemma create_post_with_video_sat:
  "io_sat (create_post_with_video w text vr alt)
     (\<lambda>r evs. \<not> isl r \<and> dir_lookups evs = 0 \<and> record_posts evs \<le> 1 \<and> \<not> reports_failed evs)"
  unfolding create_post_with_video_def
  by (rule sat_intros conjI impI allI | clarsimp split: sum.splits)+

lemma post_to_bluesky_sat:
  "io_sat (post_to_bluesky w cfg path descr sun)
     (\<lambda>r evs. \<not> isl r \<and> dir_lookups evs \<le> 2 \<and>
        (reports_failed evs \<longrightarrow> r = Inr False \<and> record_posts evs = 0))"
  unfolding post_to_bluesky_def
  by (rule sat_intros sat_weaken [OF create_session_sat]
        sat_weaken [OF upload_video_sat] sat_weaken [OF create_post_with_video_sat]
        conjI impI allI
      | clarsimp simp: calm_def split: sum.splits)+

section \<open>The publish step without credentials\<close>

text \<open>
  Claim C10. When the configured handle is still the placeholder
  \<^verbatim>\<open>handle.bsky.social\<close> or the configured password is empty,
  \<^verbatim>\<open>post_to_bluesky\<close> returns \<^verbatim>\<open>False\<close> at once: it logs that the credentials are
  not configured and sends no request.
\<close>

theorem unconfigured_credentials_skip_post:
  "cfg_handle cfg = ''handle.bsky.social'' \<or> cfg_password cfg = '''' \<Longrightarrow>
   post_to_bluesky w cfg video_path description sunrise_hms s =
     (Inr False, s\<lparr>trace := trace s @ [Say CredentialsNotConfigured]\<rparr>) \<and>
   requests (trace (snd (post_to_bluesky w cfg video_path description sunrise_hms s))) =
     requests (trace s)"
  by (auto simp: post_to_bluesky_def io_defs requests_append)

theorem unconfigured_credentials_skip_post_witness:
  "(cfg_handle \<lparr>cfg_handle = ''handle.bsky.social'', cfg_password = ''secret''\<rparr>
      = ''handle.bsky.social'' \<or>
    cfg_password \<lparr>cfg_handle = ''handle.bsky.social'', cfg_password = ''secret''\<rparr> = '''') \<and>
   post_to_bluesky (demo_world 11 (did_document [pds_service]) accepted progress)
     \<lparr>cfg_handle = ''handle.bsky.social'', cfg_password = ''secret''\<rparr>
     ''sunrise.mp4'' ''Dawn'' ''05:31:00'' fresh =
     (Inr False, fresh\<lparr>trace := [Say CredentialsNotConfigured]\<rparr>) \<and>
   requests (trace (snd (post_to_bluesky
     (demo_world 11 (did_document [pds_service]) accepted progress)
     \<lparr>cfg_handle = ''handle.bsky.social'', cfg_password = ''secret''\<rparr>
     ''sunrise.mp4'' ''Dawn'' ''05:31:00'' fresh))) = []"
  using unconfigured_credentials_skip_post
    [of "\<lparr>cfg_handle = ''handle.bsky.social'', cfg_password = ''secret''\<rparr>"
        "demo_world 11 (did_document [pds_service]) accepted progress"
        "''sunrise.mp4''" "''Dawn''" "''05:31:00''" fresh]
  by (simp add: fresh_def)


section \<open>Composing the post record\<close>

lemma create_post_with_video_requests:
  "build_record text (utc_now_iso w (trace s)) video_result alt_text = Inr record \<Longrightarrow>
   requests (trace (snd (create_post_with_video w text video_result alt_text s))) =
     requests (trace s) @ [CreateRecord (access_token s) (did s) record]"
  by (simp add: create_post_with_video_def io_defs response_json_def requests_append
      split: option.splits)

text \<open>
  Claim C6. The record \<^verbatim>\<open>create_post_with_video\<close> composes from a text, a video result and
  an alt text always embeds the blob of the video result under \<^verbatim>\<open>video\<close>; its embed has an
  \<^verbatim>\<open>alt\<close> entry exactly when the alt text is not empty (and then it is the alt text), and an
  \<^verbatim>\<open>aspectRatio\<close> entry exactly when the video result has one (and then the same). Building
  the record is a pure function of these inputs and the time stamp; the only request of the
  function is the one that submits this very record.
\<close>

theorem build_record_fields:
  "\<exists>emb.
     build_record text created_at (PDict kvs) alt_text =
       Inr (PDict [(''$type'', PStr ''app.bsky.feed.post''), (''text'', PStr text),
                   (''createdAt'', PStr created_at), (''embed'', PDict emb)]) \<and>
     map_of emb ''video'' = Some (case map_of kvs ''blob'' of Some b \<Rightarrow> b | None \<Rightarrow> PNone) \<and>
     map_of emb ''alt'' = (if alt_text = [] then None else Some (PStr alt_text)) \<and>
     map_of emb ''aspectRatio'' = map_of kvs ''aspectRatio'' \<and>
     requests (trace (snd (create_post_with_video w text (PDict kvs) alt_text s))) =
       requests (trace s) @
       [CreateRecord (access_token s) (did s)
          (PDict [(''$type'', PStr ''app.bsky.feed.post''), (''text'', PStr text),
                  (''createdAt'', PStr (utc_now_iso w (trace s))), (''embed'', PDict emb)])]"
proof -
  let ?emb = "[(''$type'', PStr ''app.bsky.embed.video''),
               (''video'', (case map_of kvs ''blob'' of Some b \<Rightarrow> b | None \<Rightarrow> PNone))]
              @ (if alt_text \<noteq> [] then [(''alt'', PStr alt_text)] else [])
              @ (case map_of kvs ''aspectRatio'' of
                   Some a \<Rightarrow> [(''aspectRatio'', a)] | None \<Rightarrow> [])"
  have b: "build_record text t (PDict kvs) alt_text =
       Inr (PDict [(''$type'', PStr ''app.bsky.feed.post''), (''text'', PStr text),
                   (''createdAt'', PStr t), (''embed'', PDict ?emb)])" for t
    by (simp add: build_record_def)
  have v: "map_of ?emb ''video'' =
      Some (case map_of kvs ''blob'' of Some b \<Rightarrow> b | None \<Rightarrow> PNone)"
    by simp
  have a: "map_of ?emb ''alt'' = (if alt_text = [] then None else Some (PStr alt_text))"
    by (simp split: option.splits)
  have r: "map_of ?emb ''aspectRatio'' = map_of kvs ''aspectRatio''"
    by (simp split: option.splits)
  from b v a r create_post_with_video_requests [OF b] show ?thesis
    by blast
qed

section \<open>The size check\<close>

lemma create_session_outcome:
  "io_sat (create_session w i p)
     (\<lambda>r evs. (r = Inr True \<and> evs = [Net (CreateSession i p)]) \<or>
               (r = Inr False \<and> (\<exists>m. evs = [Net (CreateSession i p), Say m])))"
  unfolding create_session_def
  by (rule sat_intros sat_update conjI impI allI | clarsimp split: sum.splits)+

text \<open>
  Claim C1, as amended. With credentials configured and a video file larger than 50 MiB,
  \<^verbatim>\<open>post_to_bluesky\<close> returns \<^verbatim>\<open>False\<close> after exactly one request, the session
  creation, which precedes the size check: nothing is uploaded, no token is asked for and
  nothing is posted. When the session was created, the one diagnostic is that the video is
  too large.
\<close>

theorem oversized_video_only_logs_in:
  assumes "cfg_handle cfg \<noteq> ''handle.bsky.social''" and "cfg_password cfg \<noteq> ''''"
    and "stat_size w video_path = Some n" and "too_large n"
  shows "\<exists>s' m.
     post_to_bluesky w cfg video_path description sunrise_hms s = (Inr False, s') \<and>
     trace s' = trace s @ [Net (CreateSession (cfg_handle cfg) (cfg_password cfg)), Say m] \<and>
     (fst (create_session w (cfg_handle cfg) (cfg_password cfg)
            (s\<lparr>access_token := PNone, did := PNone, handle := PNone\<rparr>)) = Inr True
      \<longrightarrow> m = VideoTooLarge)"
proof -
  let ?s0 = "s\<lparr>access_token := PNone, did := PNone, handle := PNone\<rparr>"
  let ?rq = "Net (CreateSession (cfg_handle cfg) (cfg_password cfg))"
  obtain r s1 evs where c: "create_session w (cfg_handle cfg) (cfg_password cfg) ?s0 = (r, s1)"
    and t: "trace s1 = trace ?s0 @ evs"
    and o: "(r = Inr True \<and> evs = [?rq]) \<or> (r = Inr False \<and> (\<exists>m. evs = [?rq, Say m]))"
    by (rule io_satE [OF create_session_outcome])
  from o show ?thesis
  proof
    assume a: "r = Inr True \<and> evs = [?rq]"
    with c have c': "create_session w (cfg_handle cfg) (cfg_password cfg) ?s0 = (Inr True, s1)"
      by simp
    have "post_to_bluesky w cfg video_path description sunrise_hms s =
        (Inr False, s1\<lparr>trace := trace s1 @ [Say VideoTooLarge]\<rparr>)"
      unfolding post_to_bluesky_def using assms c'
      by (simp add: try_except_def thn_def init_client_def os_result_def lift_def seq_def
          say_def emit_def ret_def)
    with a t c' show ?thesis by simp
  next
    assume a: "r = Inr False \<and> (\<exists>m. evs = [?rq, Say m])"
    then obtain m where m: "evs = [?rq, Say m]" by blast
    from a c have c': "create_session w (cfg_handle cfg) (cfg_password cfg) ?s0 = (Inr False, s1)"
      by simp
    have "post_to_bluesky w cfg video_path description sunrise_hms s = (Inr False, s1)"
      unfolding post_to_bluesky_def using assms c'
      by (simp add: try_except_def thn_def init_client_def ret_def)
    with m t c' show ?thesis by simp
  qed
qed

theorem oversized_video_only_logs_in_witness:
  "cfg_handle demo_config \<noteq> ''handle.bsky.social'' \<and> cfg_password demo_config \<noteq> '''' \<and>
   stat_size (demo_world 52428801 (did_document [pds_service]) accepted progress)
     ''sunrise.mp4'' = Some 52428801 \<and>
   too_large 52428801 \<and>
   (\<exists>s' m.
     post_to_bluesky (demo_world 52428801 (did_document [pds_service]) accepted progress)
       demo_config ''sunrise.mp4'' ''Dawn'' ''05:31:00'' fresh = (Inr False, s') \<and>
     trace s' = trace fresh @
       [Net (CreateSession (cfg_handle demo_config) (cfg_password demo_config)), Say m])"
proof -
  have 1: "cfg_handle demo_config \<noteq> ''handle.bsky.social''"
    by (simp add: demo_config_def)
  have 2: "cfg_password demo_config \<noteq> ''''"
    by (simp add: demo_config_def)
  have 3: "stat_size (demo_world 52428801 (did_document [pds_service]) accepted progress)
     ''sunrise.mp4'' = Some 52428801"
    by (simp add: demo_world_def)
  have 4: "too_large 52428801"
    by (simp add: too_large_def)
  from oversized_video_only_logs_in [OF 1 2 3 4, of "''Dawn''" "''05:31:00''" fresh] 1 2 3 4
  show ?thesis by blast
qed

text \<open>
  The claim as stated (no request at all) fails: a file of 50 MiB and one byte is rejected
  only after the login request has been sent.
\<close>

theorem oversized_video_after_login_counterexample:
  "too_large 52428801 \<and>
   post_to_bluesky (demo_world 52428801 (did_document [pds_service]) accepted progress)
     demo_config ''sunrise.mp4'' ''Dawn'' ''05:31:00'' fresh =
     (Inr False,
      logged_in\<lparr>trace := [Net (CreateSession ''alice.bsky.social'' ''app-password''),
                            Say VideoTooLarge]\<rparr>)"
  by (simp add: run_steps)

section \<open>Directory lookups\<close>

text \<open>
  Claim C7, as amended. The storage-node resolution is not cached: every call of
  \<^verbatim>\<open>get_service_auth\<close> performs one directory lookup of its own, whatever happened before,
  and a publish attempt performs at most two of them (one for the token of the upload, one
  for the token of the polling or of the fetch on the conflict path).
\<close>

theorem directory_lookup_per_token_issue:
  "(\<exists>r s' evs. get_service_auth w s = (Inr r, s') \<and> trace s' = trace s @ evs \<and>
      dir_lookups evs = 1) \<and>
   (\<exists>b s' evs. post_to_bluesky w cfg video_path description sunrise_hms s = (Inr b, s') \<and>
      trace s' = trace s @ evs \<and> dir_lookups evs \<le> 2)"
proof
  obtain r s' evs where "get_service_auth w s = (r, s')" "trace s' = trace s @ evs"
    "\<not> isl r \<and> calm evs \<and> dir_lookups evs = 1"
    by (rule io_satE [OF get_service_auth_sat])
  then show "\<exists>r s' evs. get_service_auth w s = (Inr r, s') \<and> trace s' = trace s @ evs \<and>
      dir_lookups evs = 1"
    by (cases r) auto
next
  obtain r s' evs where "post_to_bluesky w cfg video_path description sunrise_hms s = (r, s')"
    "trace s' = trace s @ evs"
    "\<not> isl r \<and> dir_lookups evs \<le> 2 \<and>
       (reports_failed evs \<longrightarrow> r = Inr False \<and> record_posts evs = 0)"
    by (rule io_satE [OF post_to_bluesky_sat])
  then show "\<exists>b s' evs. post_to_bluesky w cfg video_path description sunrise_hms s = (Inr b, s') \<and>
      trace s' = trace s @ evs \<and> dir_lookups evs \<le> 2"
    by (cases r) auto
qed

text \<open>
  The claim as stated (at most one lookup in an attempt) fails: a successful attempt looks
  the same DID up twice.
\<close>

theorem successful_run_looks_up_twice_counterexample:
  "fst (post_to_bluesky (demo_world 11 (did_document [pds_service]) accepted progress)
          demo_config ''sunrise.mp4'' ''Dawn over the harbor'' ''05:31:00'' fresh) = Inr True \<and>
   filter is_directory_lookup (requests (trace (snd
     (post_to_bluesky (demo_world 11 (did_document [pds_service]) accepted progress)
        demo_config ''sunrise.mp4'' ''Dawn over the harbor'' ''05:31:00'' fresh)))) =
     [GetDidDocument (PStr ''did:plc:abc123''), GetDidDocument (PStr ''did:plc:abc123'')]"
  by (simp add: run_steps)

section \<open>The polling loop\<close>

lemma poll_attempt_non_terminal:
  assumes "respond w (trace s) (GetJobStatus a j) = Some r" and "non_terminal r"
  shows "\<exists>ms. poll_attempt w a j k s =
            k (s\<lparr>trace := trace s @ Net (GetJobStatus a j) # map Say ms @ [Sleep 10]\<rparr>) \<and>
          \<not> list_ex is_processing_failed ms \<and> ProcessingTimedOut \<notin> set ms"
proof (cases "status_code r = 200")
  case False
  with assms(1) have "poll_attempt w a j k s =
      k (s\<lparr>trace := trace s @ Net (GetJobStatus a j)
            # map Say [StatusCheckFailed (status_code r)] @ [Sleep 10]\<rparr>)"
    by (simp add: poll_attempt_run io_defs)
  then show ?thesis
    by (intro exI [of _ "[StatusCheckFailed (status_code r)]"]) simp
next
  case True
  with assms(2) obtain body job_status st where b: "response_json r = Inr body"
    and js: "py_get body ''jobStatus'' (PDict []) = Inr job_status"
    and st: "py_get job_status ''state'' PNone = Inr st"
    and nt: "st \<noteq> PStr ''JOB_STATE_COMPLETED''" "st \<noteq> PStr ''JOB_STATE_FAILED''"
    by (auto simp: non_terminal_def job_state_def split: sum.splits)
  show ?thesis
  proof (cases "st \<in> set [PStr ''JOB_STATE_CREATED'', PStr ''JOB_STATE_RUNNING'',
                            PStr ''JOB_STATE_ENCODING'']")
    case known: True
    with assms(1) True b js st nt have "poll_attempt w a j k s =
        k (s\<lparr>trace := trace s @ Net (GetJobStatus a j) # map Say [] @ [Sleep 10]\<rparr>)"
      by (simp add: poll_attempt_run io_defs)
    then show ?thesis
      by (intro exI [of _ "[]"]) simp
  next
    case unknown: False
    with assms(1) True b js st nt have "poll_attempt w a j k s =
        k (s\<lparr>trace := trace s @ Net (GetJobStatus a j) # map Say [UnknownJobState st]
             @ [Sleep 10]\<rparr>)"
      by (simp add: poll_attempt_run io_defs)
    then show ?thesis
      by (intro exI [of _ "[UnknownJobState st]"]) simp
  qed
qed

lemma poll_loop_never_terminal:
  assumes "\<forall>tr. \<exists>r. respond w tr (GetJobStatus a j) = Some r \<and> non_terminal r"
  shows "\<exists>evs. poll_loop w a j n s = (Inr PNone, s\<lparr>trace := trace s @ evs\<rparr>) \<and>
           status_queries evs = n \<and> sleeps evs = replicate n 10 \<and> timed_out evs \<and>
           \<not> reports_failed evs"
proof (induction n arbitrary: s)
  case 0
  have "poll_loop w a j 0 s = (Inr PNone, s\<lparr>trace := trace s @ [Say ProcessingTimedOut]\<rparr>)"
    by (simp add: poll_loop_zero io_defs)
  then show ?case
    by (intro exI [of _ "[Say ProcessingTimedOut]"]) simp
next
  case (Suc n)
  from assms obtain r where r: "respond w (trace s) (GetJobStatus a j) = Some r"
    "non_terminal r"
    by blast
  from poll_attempt_non_terminal [OF r, of "poll_loop w a j n"]
  obtain ms where step: "poll_loop w a j (Suc n) s =
      poll_loop w a j n (s\<lparr>trace := trace s @ Net (GetJobStatus a j) # map Say ms @ [Sleep 10]\<rparr>)"
    and ms: "\<not> list_ex is_processing_failed ms" "ProcessingTimedOut \<notin> set ms"
    by (auto simp: poll_loop_step)
  let ?pre = "Net (GetJobStatus a j) # map Say ms @ [Sleep 10]"
  from Suc [of "s\<lparr>trace := trace s @ ?pre\<rparr>"]
  obtain evs where rest: "poll_loop w a j n (s\<lparr>trace := trace s @ ?pre\<rparr>) =
      (Inr PNone, s\<lparr>trace := trace s @ ?pre @ evs\<rparr>)"
    and facts: "status_queries evs = n" "sleeps evs = replicate n 10" "timed_out evs"
      "\<not> reports_failed evs"
    by auto
  have m: "messages (map Say ms) = ms" "requests (map Say ms) = []" "sleeps (map Say ms) = []"
    by (induction ms) simp_all
  have pre: "status_queries ?pre = 1" "sleeps ?pre = [10]" "\<not> reports_failed ?pre"
    using ms m
    by (simp_all add: status_queries_def reports_failed_def requests_append sleeps_append
        messages_append)
  from step rest have "poll_loop w a j (Suc n) s =
      (Inr PNone, s\<lparr>trace := trace s @ (?pre @ evs)\<rparr>)"
    by simp
  moreover have "status_queries (?pre @ evs) = Suc n" "sleeps (?pre @ evs) = replicate (Suc n) 10"
    "timed_out (?pre @ evs)" "\<not> reports_failed (?pre @ evs)"
    using pre facts by (simp_all add: sleeps_append del: append_Cons append.simps)
  ultimately show ?case
    by (intro exI [of _ "?pre @ evs"] conjI)
qed

lemma wait_polls:
  assumes "get_service_auth w s = (Inr a, s1)" and "truthy a"
    and "poll_loop w a j max_attempts s1 = (Inr v, s2)"
  shows "wait_for_video_processing w j s = (Inr v, s2)"
  using assms by (simp add: wait_for_video_processing_def try_except_def thn_def)

lemma demo_service_auth:
  "get_service_auth (demo_world n (did_document [pds_service]) u st) logged_in =
     (Inr (PStr ''svc''),
      logged_in\<lparr>trace := [Net (GetDidDocument (PStr ''did:plc:abc123'')),
        Net (GetServiceAuth (PStr ''jwt'') (PStr ''did:web:pds.example.com'') 1754199000)]\<rparr>)"
  by (simp add: get_service_auth_def get_user_pds_did_def io_defs response_json_def
      find_pds_nil find_pds_cons demo_world_def did_document_def pds_service_def
      json_response_def logged_in_def)

text \<open>
  Claim C3. Whatever the server answers, \<^verbatim>\<open>wait_for_video_processing\<close> returns: the model is
  a total function, the loop being a recursion on the number of attempts left. It sends at
  most 30 status queries; every sleep lasts 10 seconds and follows a status query; it has
  slept 30 times exactly when it reports the timeout, and then it returns \<^verbatim>\<open>None\<close>. In
  particular, when a token was issued and no answer to a status query is ever terminal, it
  sends 30 queries, sleeps 30 times 10 seconds and ends with the timeout.
\<close>

theorem wait_for_video_processing_bounded:
  "(\<exists>v s' evs. wait_for_video_processing w job_id s = (Inr v, s') \<and>
      trace s' = trace s @ evs \<and> status_queries evs \<le> 30 \<and>
      (\<forall>k\<in>set (sleeps evs). k = 10) \<and> length (sleeps evs) \<le> status_queries evs \<and>
      (length (sleeps evs) = 30 \<longleftrightarrow> timed_out evs) \<and>
      (timed_out evs \<longrightarrow> v = PNone)) \<and>
   (get_service_auth w s = (Inr a, s1) \<and> truthy a \<and>
    (\<forall>tr. \<exists>r. respond w tr (GetJobStatus a job_id) = Some r \<and> non_terminal r) \<longrightarrow>
    (\<exists>evs. wait_for_video_processing w job_id s = (Inr PNone, s1\<lparr>trace := trace s1 @ evs\<rparr>) \<and>
       status_queries evs = 30 \<and> sleeps evs = replicate 30 10 \<and> timed_out evs))"
proof (intro conjI impI)
  obtain r s' evs where run: "wait_for_video_processing w job_id s = (r, s')"
    "trace s' = trace s @ evs"
    and q: "\<not> isl r \<and> dir_lookups evs = 1 \<and> record_posts evs = 0 \<and>
        status_queries evs \<le> 30 \<and>
        (\<forall>k\<in>set (sleeps evs). k = 10) \<and> length (sleeps evs) \<le> status_queries evs \<and>
        (length (sleeps evs) = 30 \<longleftrightarrow> timed_out evs) \<and>
        (timed_out evs \<or> reports_failed evs \<longrightarrow> r = Inr PNone)"
    by (rule io_satE [OF wait_for_video_processing_sat])
  from q obtain v where "r = Inr v" by (cases r) auto
  with run q show "\<exists>v s' evs. wait_for_video_processing w job_id s = (Inr v, s') \<and>
      trace s' = trace s @ evs \<and> status_queries evs \<le> 30 \<and>
      (\<forall>k\<in>set (sleeps evs). k = 10) \<and> length (sleeps evs) \<le> status_queries evs \<and>
      (length (sleeps evs) = 30 \<longleftrightarrow> timed_out evs) \<and>
      (timed_out evs \<longrightarrow> v = PNone)"
    by auto
next
  assume h: "get_service_auth w s = (Inr a, s1) \<and> truthy a \<and>
    (\<forall>tr. \<exists>r. respond w tr (GetJobStatus a job_id) = Some r \<and> non_terminal r)"
  then have nt: "\<forall>tr. \<exists>r. respond w tr (GetJobStatus a job_id) = Some r \<and> non_terminal r"
    by simp
  from poll_loop_never_terminal [OF nt, of max_attempts s1]
  obtain evs where p: "poll_loop w a job_id max_attempts s1 =
      (Inr PNone, s1\<lparr>trace := trace s1 @ evs\<rparr>)"
    and f: "status_queries evs = max_attempts" "sleeps evs = replicate max_attempts 10"
      "timed_out evs"
    by auto
  from h p have "wait_for_video_processing w job_id s =
      (Inr PNone, s1\<lparr>trace := trace s1 @ evs\<rparr>)"
    by (intro wait_polls [of w s a s1]) simp_all
  with f show "\<exists>evs. wait_for_video_processing w job_id s =
       (Inr PNone, s1\<lparr>trace := trace s1 @ evs\<rparr>) \<and>
       status_queries evs = 30 \<and> sleeps evs = replicate 30 10 \<and> timed_out evs"
    by (auto simp: max_attempts_def)
qed

theorem wait_for_video_processing_bounded_witness:
  "get_service_auth (demo_world 11 (did_document [pds_service]) accepted stuck) logged_in =
     (Inr (PStr ''svc''),
      logged_in\<lparr>trace := [Net (GetDidDocument (PStr ''did:plc:abc123'')),
        Net (GetServiceAuth (PStr ''jwt'') (PStr ''did:web:pds.example.com'') 1754199000)]\<rparr>) \<and>
   truthy (PStr ''svc'') \<and>
   (\<forall>tr. \<exists>r. respond (demo_world 11 (did_document [pds_service]) accepted stuck) tr
        (GetJobStatus (PStr ''svc'') (PStr ''job-1'')) = Some r \<and> non_terminal r) \<and>
   (\<exists>evs. wait_for_video_processing (demo_world 11 (did_document [pds_service]) accepted stuck)
        (PStr ''job-1'') logged_in =
       (Inr PNone,
        logged_in\<lparr>trace := [Net (GetDidDocument (PStr ''did:plc:abc123'')),
          Net (GetServiceAuth (PStr ''jwt'') (PStr ''did:web:pds.example.com'') 1754199000)]
          @ evs\<rparr>) \<and>
      status_queries evs = 30 \<and> sleeps evs = replicate 30 10 \<and> timed_out evs)"
proof -
  let ?w = "demo_world 11 (did_document [pds_service]) accepted stuck"
  let ?s1 = "logged_in\<lparr>trace := [Net (GetDidDocument (PStr ''did:plc:abc123'')),
        Net (GetServiceAuth (PStr ''jwt'') (PStr ''did:web:pds.example.com'') 1754199000)]\<rparr>"
  have 1: "get_service_auth ?w logged_in = (Inr (PStr ''svc''), ?s1)"
    by (rule demo_service_auth)
  have 2: "truthy (PStr ''svc'')"
    by simp
  have 3: "\<forall>tr. \<exists>r. respond ?w tr (GetJobStatus (PStr ''svc'') (PStr ''job-1'')) = Some r \<and>
      non_terminal r"
    by (simp add: demo_world_def stuck_def job_status_response_def json_response_def
        non_terminal_def job_state_def response_json_def)
  from wait_for_video_processing_bounded
    [of ?w "PStr ''job-1''" logged_in "PStr ''svc''" ?s1] 1 2 3
  have "\<exists>evs. wait_for_video_processing ?w (PStr ''job-1'') logged_in =
       (Inr PNone, ?s1\<lparr>trace := trace ?s1 @ evs\<rparr>) \<and>
       status_queries evs = 30 \<and> sleeps evs = replicate 30 10 \<and> timed_out evs"
    by (elim conjE) (erule mp, intro conjI)
  with 1 2 3 show ?thesis
    by (simp add: logged_in_def)
qed

text \<open>
  Claim C9. A status query answered with an HTTP status other than 200 does not end the
  polling: the poller logs it, sleeps 10 seconds and goes on with one attempt less. When
  every status query is answered so, the poller sends 30 queries, sleeps 30 times and ends
  with the timeout, returning \<^verbatim>\<open>None\<close>, and never reports a processing failure.
\<close>

theorem status_errors_consume_attempts:
  "(respond w (trace s) (GetJobStatus a job_id) = Some r \<and> status_code r \<noteq> 200 \<longrightarrow>
    poll_loop w a job_id (Suc n) s =
      poll_loop w a job_id n
        (s\<lparr>trace := trace s @ [Net (GetJobStatus a job_id),
              Say (StatusCheckFailed (status_code r)), Sleep 10]\<rparr>)) \<and>
   (get_service_auth w s = (Inr a, s1) \<and> truthy a \<and>
    (\<forall>tr. \<exists>r. respond w tr (GetJobStatus a job_id) = Some r \<and> status_code r \<noteq> 200) \<longrightarrow>
    (\<exists>evs. wait_for_video_processing w job_id s = (Inr PNone, s1\<lparr>trace := trace s1 @ evs\<rparr>) \<and>
       status_queries evs = 30 \<and> sleeps evs = replicate 30 10 \<and> timed_out evs \<and>
       \<not> reports_failed evs))"
proof (intro conjI impI)
  assume "respond w (trace s) (GetJobStatus a job_id) = Some r \<and> status_code r \<noteq> 200"
  then show "poll_loop w a job_id (Suc n) s =
      poll_loop w a job_id n
        (s\<lparr>trace := trace s @ [Net (GetJobStatus a job_id),
              Say (StatusCheckFailed (status_code r)), Sleep 10]\<rparr>)"
    by (simp add: poll_loop_step poll_attempt_run io_defs)
next
  assume h: "get_service_auth w s = (Inr a, s1) \<and> truthy a \<and>
    (\<forall>tr. \<exists>r. respond w tr (GetJobStatus a job_id) = Some r \<and> status_code r \<noteq> 200)"
  then have nt: "\<forall>tr. \<exists>r. respond w tr (GetJobStatus a job_id) = Some r \<and> non_terminal r"
    by (simp add: non_terminal_def) blast
  from poll_loop_never_terminal [OF nt, of max_attempts s1]
  obtain evs where p: "poll_loop w a job_id max_attempts s1 =
      (Inr PNone, s1\<lparr>trace := trace s1 @ evs\<rparr>)"
    and f: "status_queries evs = max_attempts" "sleeps evs = replicate max_attempts 10"
      "timed_out evs" "\<not> reports_failed evs"
    by auto
  from h p have "wait_for_video_processing w job_id s =
      (Inr PNone, s1\<lparr>trace := trace s1 @ evs\<rparr>)"
    by (intro wait_polls [of w s a s1]) simp_all
  with f show "\<exists>evs. wait_for_video_processing w job_id s =
       (Inr PNone, s1\<lparr>trace := trace s1 @ evs\<rparr>) \<and>
       status_queries evs = 30 \<and> sleeps evs = replicate 30 10 \<and> timed_out evs \<and>
       \<not> reports_failed evs"
    by (auto simp: max_attempts_def)
qed

theorem status_errors_consume_attempts_witness:
  "respond (demo_world 11 (did_document [pds_service]) accepted unavailable) (trace logged_in)
     (GetJobStatus (PStr ''svc'') (PStr ''job-1'')) = Some (unavailable 0) \<and>
   status_code (unavailable 0) \<noteq> 200 \<and>
   poll_loop (demo_world 11 (did_document [pds_service]) accepted unavailable)
     (PStr ''svc'') (PStr ''job-1'') (Suc 29) logged_in =
   poll_loop (demo_world 11 (did_document [pds_service]) accepted unavailable)
     (PStr ''svc'') (PStr ''job-1'') 29
     (logged_in\<lparr>trace := [Net (GetJobStatus (PStr ''svc'') (PStr ''job-1'')),
        Say (StatusCheckFailed 503), Sleep 10]\<rparr>) \<and>
   get_service_auth (demo_world 11 (did_document [pds_service]) accepted unavailable) logged_in =
     (Inr (PStr ''svc''),
      logged_in\<lparr>trace := [Net (GetDidDocument (PStr ''did:plc:abc123'')),
        Net (GetServiceAuth (PStr ''jwt'') (PStr ''did:web:pds.example.com'') 1754199000)]\<rparr>) \<and>
   truthy (PStr ''svc'') \<and>
   (\<forall>tr. \<exists>r. respond (demo_world 11 (did_document [pds_service]) accepted unavailable) tr
        (GetJobStatus (PStr ''svc'') (PStr ''job-1'')) = Some r \<and> status_code r \<noteq> 200) \<and>
   (\<exists>evs. wait_for_video_processing
        (demo_world 11 (did_document [pds_service]) accepted unavailable)
        (PStr ''job-1'') logged_in =
       (Inr PNone,
        logged_in\<lparr>trace := [Net (GetDidDocument (PStr ''did:plc:abc123'')),
          Net (GetServiceAuth (PStr ''jwt'') (PStr ''did:web:pds.example.com'') 1754199000)]
          @ evs\<rparr>) \<and>
      status_queries evs = 30 \<and> sleeps evs = replicate 30 10 \<and> timed_out evs \<and>
      \<not> reports_failed evs)"
proof -
  let ?w = "demo_world 11 (did_document [pds_service]) accepted unavailable"
  let ?s1 = "logged_in\<lparr>trace := [Net (GetDidDocument (PStr ''did:plc:abc123'')),
        Net (GetServiceAuth (PStr ''jwt'') (PStr ''did:web:pds.example.com'') 1754199000)]\<rparr>"
  let ?q = "GetJobStatus (PStr ''svc'') (PStr ''job-1'')"
  have 0: "respond ?w (trace logged_in) ?q = Some (unavailable 0) \<and>
      status_code (unavailable 0) \<noteq> 200"
    by (simp add: demo_world_def unavailable_def logged_in_def)
  have 1: "get_service_auth ?w logged_in = (Inr (PStr ''svc''), ?s1)"
    by (rule demo_service_auth)
  have 2: "truthy (PStr ''svc'')"
    by simp
  have 3: "\<forall>tr. \<exists>r. respond ?w tr ?q = Some r \<and> status_code r \<noteq> 200"
    by (simp add: demo_world_def unavailable_def)
  note inst = status_errors_consume_attempts
    [of ?w logged_in "PStr ''svc''" "PStr ''job-1''" "unavailable 0" 29 ?s1]
  from inst 0 have a: "poll_loop ?w (PStr ''svc'') (PStr ''job-1'') (Suc 29) logged_in =
      poll_loop ?w (PStr ''svc'') (PStr ''job-1'') 29
        (logged_in\<lparr>trace := trace logged_in @ [Net ?q,
              Say (StatusCheckFailed (status_code (unavailable 0))), Sleep 10]\<rparr>)"
    by (elim conjE) (erule mp, intro conjI)
  from inst 1 2 3 have b: "\<exists>evs. wait_for_video_processing ?w (PStr ''job-1'') logged_in =
       (Inr PNone, ?s1\<lparr>trace := trace ?s1 @ evs\<rparr>) \<and>
       status_queries evs = 30 \<and> sleeps evs = replicate 30 10 \<and> timed_out evs \<and>
       \<not> reports_failed evs"
    by (elim conjE) (erule mp, intro conjI)
  from a have a': "poll_loop ?w (PStr ''svc'') (PStr ''job-1'') (Suc 29) logged_in =
      poll_loop ?w (PStr ''svc'') (PStr ''job-1'') 29
        (logged_in\<lparr>trace := [Net ?q, Say (StatusCheckFailed 503), Sleep 10]\<rparr>)"
    by (simp add: logged_in_def unavailable_def)
  from b have b': "\<exists>evs. wait_for_video_processing ?w (PStr ''job-1'') logged_in =
       (Inr PNone,
        logged_in\<lparr>trace := [Net (GetDidDocument (PStr ''did:plc:abc123'')),
          Net (GetServiceAuth (PStr ''jwt'') (PStr ''did:web:pds.example.com'') 1754199000)]
          @ evs\<rparr>) \<and>
       status_queries evs = 30 \<and> sleeps evs = replicate 30 10 \<and> timed_out evs \<and>
       \<not> reports_failed evs"
    by (simp add: logged_in_def)
  from 0 a' 1 2 3 b' show ?thesis
    by (intro conjI) simp_all
qed

section \<open>The answers to the poller, one by one\<close>

lemma map_Say_reads [simp]:
  "requests (map Say ms) = []" "sleeps (map Say ms) = []" "messages (map Say ms) = ms"
  by (induction ms) simp_all

lemma map_Say_counts [simp]:
  "status_queries (map Say ms) = 0" "dir_lookups (map Say ms) = 0"
  "record_posts (map Say ms) = 0"
  "reports_failed (map Say ms) = list_ex is_processing_failed ms"
  "timed_out (map Say ms) \<longleftrightarrow> ProcessingTimedOut \<in> set ms"
  by (simp_all add: status_queries_def dir_lookups_def record_posts_def reports_failed_def
      timed_out_def)

lemma poll_loop_skips:
  assumes "\<forall>tr. respond w tr (GetJobStatus a j) = Some (script (status_queries tr))"
    and "\<forall>i<m. non_terminal (script (status_queries (trace s) + i))"
  shows "\<exists>evs. poll_loop w a j (m + n) s = poll_loop w a j n (s\<lparr>trace := trace s @ evs\<rparr>) \<and>
           status_queries evs = m \<and> sleeps evs = replicate m 10 \<and>
           \<not> reports_failed evs \<and> \<not> timed_out evs \<and> record_posts evs = 0 \<and>
           dir_lookups evs = 0"
  using assms(2)
proof (induction m arbitrary: s)
  case 0
  show ?case
    by (intro exI [of _ "[]"]) simp
next
  case (Suc m)
  let ?q = "GetJobStatus a j"
  from assms(1) have r: "respond w (trace s) ?q = Some (script (status_queries (trace s)))"
    by simp
  from Suc.prems have nt: "non_terminal (script (status_queries (trace s)))"
    by (metis add.right_neutral zero_less_Suc)
  from poll_attempt_non_terminal [OF r nt, of "poll_loop w a j (m + n)"]
  obtain ms where step: "poll_loop w a j (Suc m + n) s =
      poll_loop w a j (m + n) (s\<lparr>trace := trace s @ Net ?q # map Say ms @ [Sleep 10]\<rparr>)"
    and ms: "\<not> list_ex is_processing_failed ms" "ProcessingTimedOut \<notin> set ms"
    by (auto simp: poll_loop_step)
  let ?pre = "Net ?q # map Say ms @ [Sleep 10]"
  let ?s' = "s\<lparr>trace := trace s @ ?pre\<rparr>"
  have c: "status_queries (trace ?s') = Suc (status_queries (trace s))"
    by simp
  have "\<forall>i<m. non_terminal (script (status_queries (trace ?s') + i))"
  proof (intro allI impI)
    fix i assume "i < m"
    then have "Suc i < Suc m" by simp
    with Suc.prems have "non_terminal (script (status_queries (trace s) + Suc i))"
      by blast
    with c show "non_terminal (script (status_queries (trace ?s') + i))"
      by simp
  qed
  from Suc.IH [OF this]
  obtain evs where rest: "poll_loop w a j (m + n) ?s' =
      poll_loop w a j n (?s'\<lparr>trace := trace ?s' @ evs\<rparr>)"
    and facts: "status_queries evs = m" "sleeps evs = replicate m 10"
      "\<not> reports_failed evs" "\<not> timed_out evs" "record_posts evs = 0" "dir_lookups evs = 0"
    by blast
  have pre: "status_queries ?pre = 1" "sleeps ?pre = [10]" "\<not> reports_failed ?pre"
    "\<not> timed_out ?pre" "record_posts ?pre = 0" "dir_lookups ?pre = 0"
    using ms by (simp_all add: sleeps_append)
  from step rest have "poll_loop w a j (Suc m + n) s =
      poll_loop w a j n (s\<lparr>trace := trace s @ (?pre @ evs)\<rparr>)"
    by simp
  moreover have "status_queries (?pre @ evs) = Suc m"
    "sleeps (?pre @ evs) = replicate (Suc m) 10"
    "\<not> reports_failed (?pre @ evs)" "\<not> timed_out (?pre @ evs)"
    "record_posts (?pre @ evs) = 0" "dir_lookups (?pre @ evs) = 0"
    using pre facts by (simp_all add: sleeps_append del: append_Cons append.simps)
  ultimately show ?case
    by (intro exI [of _ "?pre @ evs"] conjI)
qed

lemma try_except_cong_run: "m s = m' s' \<Longrightarrow> try_except m h s = try_except m' h s'"
  by (simp add: try_except_def)

lemma wait_resumes:
  assumes "get_service_auth w s = (Inr a, s1)" and "truthy a"
  shows "wait_for_video_processing w j s =
     try_except (poll_loop w a j max_attempts) (\<lambda>e. seq (say (WaitError e)) (ret PNone)) s1"
  using assms
  by (simp add: wait_for_video_processing_def try_except_def thn_def split: prod.splits sum.splits)

lemma wait_reaches:
  assumes "get_service_auth w s = (Inr a, s1)" and "truthy a"
    and "\<forall>tr. respond w tr (GetJobStatus a j) = Some (script (status_queries tr))"
    and "\<forall>i<m. non_terminal (script (status_queries (trace s1) + i))"
    and "m < max_attempts"
  shows "\<exists>evs. status_queries evs = m \<and> sleeps evs = replicate m 10 \<and>
           \<not> reports_failed evs \<and> \<not> timed_out evs \<and> record_posts evs = 0 \<and>
           dir_lookups evs = 0 \<and>
           respond w (trace s1 @ evs) (GetJobStatus a j) =
             Some (script (status_queries (trace s1) + m)) \<and>
           wait_for_video_processing w j s =
             try_except (poll_loop w a j (Suc (max_attempts - Suc m)))
               (\<lambda>e. seq (say (WaitError e)) (ret PNone)) (s1\<lparr>trace := trace s1 @ evs\<rparr>)"
proof -
  let ?n = "max_attempts - Suc m"
  from assms(5) have split: "max_attempts = m + Suc ?n"
    by simp
  from poll_loop_skips [OF assms(3,4), of "Suc ?n"]
  obtain evs where skip: "poll_loop w a j (m + Suc ?n) s1 =
      poll_loop w a j (Suc ?n) (s1\<lparr>trace := trace s1 @ evs\<rparr>)"
    and facts: "status_queries evs = m" "sleeps evs = replicate m 10"
      "\<not> reports_failed evs" "\<not> timed_out evs" "record_posts evs = 0" "dir_lookups evs = 0"
    by blast
  from assms(3) facts(1) have answer: "respond w (trace s1 @ evs) (GetJobStatus a j) =
      Some (script (status_queries (trace s1) + m))"
    by simp
  from split skip have loop: "poll_loop w a j max_attempts s1 =
      poll_loop w a j (Suc ?n) (s1\<lparr>trace := trace s1 @ evs\<rparr>)"
    by simp
  have "wait_for_video_processing w j s =
      try_except (poll_loop w a j (Suc ?n)) (\<lambda>e. seq (say (WaitError e)) (ret PNone))
        (s1\<lparr>trace := trace s1 @ evs\<rparr>)"
    unfolding wait_resumes [OF assms(1,2)]
    by (rule try_except_cong_run) (rule loop)
  with facts answer show ?thesis
    by (intro exI [of _ evs] conjI)
qed

lemma demo_service_auth_at:
  assumes "access_token s = PStr ''jwt''" and "did s = PStr ''did:plc:abc123''"
  shows "get_service_auth (demo_world n (did_document [pds_service]) u st) s =
     (Inr (PStr ''svc''),
      s\<lparr>trace := trace s @ [Net (GetDidDocument (PStr ''did:plc:abc123'')),
        Net (GetServiceAuth (PStr ''jwt'') (PStr ''did:web:pds.example.com'') 1754199000)]\<rparr>)"
  using assms
  by (simp add: get_service_auth_def get_user_pds_did_def io_defs response_json_def
      find_pds_nil find_pds_cons demo_world_def did_document_def pds_service_def
      json_response_def)

lemma poll_loop_answer:
  assumes "respond w (trace s) (GetJobStatus a job_id) = Some r" and "status_code r = 200"
    and "response_json r = Inr body"
    and "py_get body ''jobStatus'' (PDict []) = Inr job_status"
    and "py_get job_status ''state'' PNone = Inr st"
    and "py_get job_status ''blob'' PNone = Inr blob_ref"
    and "py_get job_status ''error'' (PStr ''Unknown error'') = Inr err"
  shows
   "(st = PStr ''JOB_STATE_COMPLETED'' \<longrightarrow>
       poll_loop w a job_id (Suc n) s =
         (if truthy blob_ref
          then (Inr blob_ref, s\<lparr>trace := trace s @ [Net (GetJobStatus a job_id)]\<rparr>)
          else (Inr PNone, s\<lparr>trace := trace s @ [Net (GetJobStatus a job_id),
                  Say CompleteButNoBlob]\<rparr>))) \<and>
    (st = PStr ''JOB_STATE_FAILED'' \<longrightarrow>
       poll_loop w a job_id (Suc n) s =
         (Inr PNone, s\<lparr>trace := trace s @ [Net (GetJobStatus a job_id),
            Say (ProcessingFailed err)]\<rparr>)) \<and>
    (st \<in> {PStr ''JOB_STATE_CREATED'', PStr ''JOB_STATE_RUNNING'', PStr ''JOB_STATE_ENCODING''} \<longrightarrow>
       poll_loop w a job_id (Suc n) s =
         poll_loop w a job_id n
           (s\<lparr>trace := trace s @ [Net (GetJobStatus a job_id), Sleep 10]\<rparr>)) \<and>
    (st \<notin> {PStr ''JOB_STATE_COMPLETED'', PStr ''JOB_STATE_FAILED'', PStr ''JOB_STATE_CREATED'',
             PStr ''JOB_STATE_RUNNING'', PStr ''JOB_STATE_ENCODING''} \<longrightarrow>
       poll_loop w a job_id (Suc n) s =
         poll_loop w a job_id n
           (s\<lparr>trace := trace s @ [Net (GetJobStatus a job_id), Say (UnknownJobState st),
              Sleep 10]\<rparr>))"
proof (intro conjI impI)
  assume "st = PStr ''JOB_STATE_COMPLETED''"
  with assms show "poll_loop w a job_id (Suc n) s =
         (if truthy blob_ref
          then (Inr blob_ref, s\<lparr>trace := trace s @ [Net (GetJobStatus a job_id)]\<rparr>)
          else (Inr PNone, s\<lparr>trace := trace s @ [Net (GetJobStatus a job_id),
                  Say CompleteButNoBlob]\<rparr>))"
    by (simp add: poll_loop_step poll_attempt_run io_defs)
next
  assume "st = PStr ''JOB_STATE_FAILED''"
  with assms show "poll_loop w a job_id (Suc n) s =
         (Inr PNone, s\<lparr>trace := trace s @ [Net (GetJobStatus a job_id),
            Say (ProcessingFailed err)]\<rparr>)"
    by (simp add: poll_loop_step poll_attempt_run io_defs)
next
  assume "st \<in> {PStr ''JOB_STATE_CREATED'', PStr ''JOB_STATE_RUNNING'',
    PStr ''JOB_STATE_ENCODING''}"
  with assms show "poll_loop w a job_id (Suc n) s =
         poll_loop w a job_id n
           (s\<lparr>trace := trace s @ [Net (GetJobStatus a job_id), Sleep 10]\<rparr>)"
    by (auto simp: poll_loop_step poll_attempt_run io_defs)
next
  assume "st \<notin> {PStr ''JOB_STATE_COMPLETED'', PStr ''JOB_STATE_FAILED'',
    PStr ''JOB_STATE_CREATED'', PStr ''JOB_STATE_RUNNING'', PStr ''JOB_STATE_ENCODING''}"
  with assms show "poll_loop w a job_id (Suc n) s =
         poll_loop w a job_id n
           (s\<lparr>trace := trace s @ [Net (GetJobStatus a job_id), Say (UnknownJobState st),
              Sleep 10]\<rparr>)"
    by (simp add: poll_loop_step poll_attempt_run io_defs)
qed

text \<open>
  Claim C4. Let a token be issued and let the server answer the status queries of
  \<^verbatim>\<open>wait_for_video_processing\<close> one after the other (\<open>script k\<close> is its answer when
  \<open>k\<close> status queries came before). After \<open>m\<close> answers that were not terminal, with
  \<open>m\<close> below the 30 attempts, the poller has sent \<open>m\<close> queries and slept \<open>m\<close> times 10
  seconds, and the next answer, with HTTP status 200 and a job status that reports a state,
  is classified as follows. \<^verbatim>\<open>JOB_STATE_COMPLETED\<close> ends the call at once: it returns the
  blob reference of the answer (and gives up with a diagnostic when the answer carries
  none). \<^verbatim>\<open>JOB_STATE_FAILED\<close> ends the call at once with a failure that carries the error
  of the answer. \<^verbatim>\<open>JOB_STATE_CREATED\<close>, \<^verbatim>\<open>JOB_STATE_RUNNING\<close> and
  \<^verbatim>\<open>JOB_STATE_ENCODING\<close> make the poller sleep 10 seconds and go on with one attempt
  less, and so does any other state, after a warning. In the two terminal cases the trace of
  the call ends with this query: no further one is sent.
\<close>

theorem poll_response_classification:
  assumes "get_service_auth w s = (Inr a, s1)" and "truthy a"
    and "\<forall>tr. respond w tr (GetJobStatus a job_id) = Some (script (status_queries tr))"
    and "\<forall>i<m. non_terminal (script (status_queries (trace s1) + i))"
    and "m < max_attempts"
    and "script (status_queries (trace s1) + m) = r"
    and "status_code r = 200"
    and "response_json r = Inr body"
    and "py_get body ''jobStatus'' (PDict []) = Inr job_status"
    and "py_get job_status ''state'' PNone = Inr st"
    and "py_get job_status ''blob'' PNone = Inr blob_ref"
    and "py_get job_status ''error'' (PStr ''Unknown error'') = Inr err"
  shows
   "\<exists>evs. status_queries evs = m \<and> sleeps evs = replicate m 10 \<and>
      \<not> reports_failed evs \<and> \<not> timed_out evs \<and>
      (st = PStr ''JOB_STATE_COMPLETED'' \<longrightarrow>
         wait_for_video_processing w job_id s =
           (if truthy blob_ref
            then (Inr blob_ref,
                  s1\<lparr>trace := trace s1 @ evs @ [Net (GetJobStatus a job_id)]\<rparr>)
            else (Inr PNone,
                  s1\<lparr>trace := trace s1 @ evs @ [Net (GetJobStatus a job_id),
                    Say CompleteButNoBlob]\<rparr>))) \<and>
      (st = PStr ''JOB_STATE_FAILED'' \<longrightarrow>
         wait_for_video_processing w job_id s =
           (Inr PNone,
            s1\<lparr>trace := trace s1 @ evs @ [Net (GetJobStatus a job_id),
              Say (ProcessingFailed err)]\<rparr>)) \<and>
      (st \<in> {PStr ''JOB_STATE_CREATED'', PStr ''JOB_STATE_RUNNING'',
              PStr ''JOB_STATE_ENCODING''} \<longrightarrow>
         wait_for_video_processing w job_id s =
           try_except (poll_loop w a job_id (max_attempts - Suc m))
             (\<lambda>e. seq (say (WaitError e)) (ret PNone))
             (s1\<lparr>trace := trace s1 @ evs @ [Net (GetJobStatus a job_id), Sleep 10]\<rparr>)) \<and>
      (st \<notin> {PStr ''JOB_STATE_COMPLETED'', PStr ''JOB_STATE_FAILED'',
              PStr ''JOB_STATE_CREATED'', PStr ''JOB_STATE_RUNNING'',
              PStr ''JOB_STATE_ENCODING''} \<longrightarrow>
         wait_for_video_processing w job_id s =
           try_except (poll_loop w a job_id (max_attempts - Suc m))
             (\<lambda>e. seq (say (WaitError e)) (ret PNone))
             (s1\<lparr>trace := trace s1 @ evs @ [Net (GetJobStatus a job_id),
                Say (UnknownJobState st), Sleep 10]\<rparr>))"
proof -
  let ?q = "GetJobStatus a job_id"
  let ?n = "max_attempts - Suc m"
  let ?h = "\<lambda>e. seq (say (WaitError e)) (ret PNone)"
  from wait_reaches [OF assms(1-5)]
  obtain evs where facts: "status_queries evs = m" "sleeps evs = replicate m 10"
      "\<not> reports_failed evs" "\<not> timed_out evs"
    and reach: "respond w (trace s1 @ evs) ?q = Some (script (status_queries (trace s1) + m))"
    and wait: "wait_for_video_processing w job_id s =
      try_except (poll_loop w a job_id (Suc ?n)) ?h (s1\<lparr>trace := trace s1 @ evs\<rparr>)"
    by blast
  let ?s2 = "s1\<lparr>trace := trace s1 @ evs\<rparr>"
  from reach assms(6) have answer: "respond w (trace ?s2) ?q = Some r"
    by simp
  note cls = poll_loop_answer [OF answer assms(7-12), of ?n]
  have 1: "wait_for_video_processing w job_id s =
           (if truthy blob_ref then (Inr blob_ref, s1\<lparr>trace := trace s1 @ evs @ [Net ?q]\<rparr>)
            else (Inr PNone, s1\<lparr>trace := trace s1 @ evs @ [Net ?q, Say CompleteButNoBlob]\<rparr>))"
    if "st = PStr ''JOB_STATE_COMPLETED''"
    using cls [THEN conjunct1, THEN mp, OF that]
    by (simp add: wait try_except_def)
  have 2: "wait_for_video_processing w job_id s =
           (Inr PNone, s1\<lparr>trace := trace s1 @ evs @ [Net ?q, Say (ProcessingFailed err)]\<rparr>)"
    if "st = PStr ''JOB_STATE_FAILED''"
    using cls [THEN conjunct2, THEN conjunct1, THEN mp, OF that]
    by (simp add: wait try_except_def)
  have 3: "wait_for_video_processing w job_id s =
           try_except (poll_loop w a job_id ?n) ?h
             (s1\<lparr>trace := trace s1 @ evs @ [Net ?q, Sleep 10]\<rparr>)"
    if "st \<in> {PStr ''JOB_STATE_CREATED'', PStr ''JOB_STATE_RUNNING'',
              PStr ''JOB_STATE_ENCODING''}"
    unfolding wait
    by (rule try_except_cong_run)
      (use cls [THEN conjunct2, THEN conjunct2, THEN conjunct1, THEN mp, OF that] in simp)
  have 4: "wait_for_video_processing w job_id s =
           try_except (poll_loop w a job_id ?n) ?h
             (s1\<lparr>trace := trace s1 @ evs @ [Net ?q, Say (UnknownJobState st), Sleep 10]\<rparr>)"
    if "st \<notin> {PStr ''JOB_STATE_COMPLETED'', PStr ''JOB_STATE_FAILED'',
              PStr ''JOB_STATE_CREATED'', PStr ''JOB_STATE_RUNNING'',
              PStr ''JOB_STATE_ENCODING''}"
    unfolding wait
    by (rule try_except_cong_run)
      (use cls [THEN conjunct2, THEN conjunct2, THEN conjunct2, THEN mp, OF that] in simp)
  from facts 1 2 3 4 show ?thesis
    by (intro exI [of _ evs] conjI impI)
qed

theorem poll_response_classification_witness:
  "(\<exists>evs. status_queries evs = 2 \<and> sleeps evs = replicate 2 10 \<and>
      wait_for_video_processing (demo_world 11 (did_document [pds_service]) accepted progress)
        (PStr ''job-1'') logged_in =
      (Inr demo_blob,
       logged_in\<lparr>trace := [Net (GetDidDocument (PStr ''did:plc:abc123'')),
          Net (GetServiceAuth (PStr ''jwt'') (PStr ''did:web:pds.example.com'') 1754199000)]
          @ evs @ [Net (GetJobStatus (PStr ''svc'') (PStr ''job-1''))]\<rparr>)) \<and>
   (\<exists>evs. status_queries evs = 1 \<and> sleeps evs = replicate 1 10 \<and>
      wait_for_video_processing (demo_world 11 (did_document [pds_service]) accepted failing)
        (PStr ''job-1'') logged_in =
      (Inr PNone,
       logged_in\<lparr>trace := [Net (GetDidDocument (PStr ''did:plc:abc123'')),
          Net (GetServiceAuth (PStr ''jwt'') (PStr ''did:web:pds.example.com'') 1754199000)]
          @ evs @ [Net (GetJobStatus (PStr ''svc'') (PStr ''job-1'')),
                   Say (ProcessingFailed (PStr ''transcode error''))]\<rparr>)) \<and>
   (\<exists>evs. status_queries evs = 0 \<and> sleeps evs = replicate 0 10 \<and>
      wait_for_video_processing (demo_world 11 (did_document [pds_service]) accepted progress)
        (PStr ''job-1'') logged_in =
      try_except
        (poll_loop (demo_world 11 (did_document [pds_service]) accepted progress)
           (PStr ''svc'') (PStr ''job-1'') 29)
        (\<lambda>e. seq (say (WaitError e)) (ret PNone))
        (logged_in\<lparr>trace := [Net (GetDidDocument (PStr ''did:plc:abc123'')),
          Net (GetServiceAuth (PStr ''jwt'') (PStr ''did:web:pds.example.com'') 1754199000)]
          @ evs @ [Net (GetJobStatus (PStr ''svc'') (PStr ''job-1'')), Sleep 10]\<rparr>)) \<and>
   (\<exists>evs. status_queries evs = 0 \<and> sleeps evs = replicate 0 10 \<and>
      wait_for_video_processing (demo_world 11 (did_document [pds_service]) accepted scanning)
        (PStr ''job-1'') logged_in =
      try_except
        (poll_loop (demo_world 11 (did_document [pds_service]) accepted scanning)
           (PStr ''svc'') (PStr ''job-1'') 29)
        (\<lambda>e. seq (say (WaitError e)) (ret PNone))
        (logged_in\<lparr>trace := [Net (GetDidDocument (PStr ''did:plc:abc123'')),
          Net (GetServiceAuth (PStr ''jwt'') (PStr ''did:web:pds.example.com'') 1754199000)]
          @ evs @ [Net (GetJobStatus (PStr ''svc'') (PStr ''job-1'')),
                   Say (UnknownJobState (PStr ''JOB_STATE_SCANNING'')), Sleep 10]\<rparr>))"
proof -
  let ?doc = "did_document [pds_service]"
  let ?pre = "[Net (GetDidDocument (PStr ''did:plc:abc123'')),
          Net (GetServiceAuth (PStr ''jwt'') (PStr ''did:web:pds.example.com'') 1754199000)]"
  let ?s1 = "logged_in\<lparr>trace := ?pre\<rparr>"
  let ?a = "PStr ''svc''"
  let ?j = "PStr ''job-1''"
  let ?q = "GetJobStatus ?a ?j"
  have s1: "trace ?s1 = ?pre" "status_queries (trace ?s1) = 0"
    "\<And>evs. ?s1\<lparr>trace := trace ?s1 @ evs\<rparr> = logged_in\<lparr>trace := ?pre @ evs\<rparr>"
    by (simp_all add: logged_in_def)
  have auth: "get_service_auth (demo_world 11 ?doc accepted script) logged_in = (Inr ?a, ?s1)"
    for script
    by (rule demo_service_auth)
  have srv: "\<forall>tr. respond (demo_world 11 ?doc accepted script) tr ?q =
      Some (script (status_queries tr))" for script
    by (simp add: demo_world_def)
  have att: "0 < max_attempts" "1 < max_attempts" "2 < max_attempts"
    "max_attempts - Suc 0 = 29"
    by (simp_all add: max_attempts_def)
  have tr: "truthy ?a"
    by simp
  have rd: "response_json (job_status_response st kvs) =
        Inr (PDict [(''jobStatus'', PDict ((''state'', PStr st) # kvs))])"
      "status_code (job_status_response st kvs) = 200"
      "py_get (PDict [(''jobStatus'', PDict ((''state'', PStr st) # kvs))]) ''jobStatus''
         (PDict []) = Inr (PDict ((''state'', PStr st) # kvs))"
      "py_get (PDict ((''state'', PStr st) # kvs)) ''state'' PNone = Inr (PStr st)"
    for st kvs
    by (simp_all add: job_status_response_def json_response_def response_json_def)
  have nt2: "\<forall>i<2. non_terminal (progress (status_queries (trace ?s1) + i))"
    by (simp add: s1 numeral_2_eq_2 less_Suc_eq progress_def non_terminal_def job_state_def
        job_status_response_def json_response_def response_json_def)
  have p2: "progress (status_queries (trace ?s1) + 2) =
      job_status_response ''JOB_STATE_COMPLETED'' [(''blob'', demo_blob)]"
    by (simp add: s1 progress_def)
  have b2: "py_get (PDict [(''state'', PStr ''JOB_STATE_COMPLETED''), (''blob'', demo_blob)])
      ''blob'' PNone = Inr demo_blob"
    "py_get (PDict [(''state'', PStr ''JOB_STATE_COMPLETED''), (''blob'', demo_blob)])
      ''error'' (PStr ''Unknown error'') = Inr (PStr ''Unknown error'')"
    by simp_all
  from poll_response_classification
    [of "demo_world 11 ?doc accepted progress" logged_in ?a ?s1 ?j progress 2,
      OF auth tr srv nt2 att(3) p2 rd(2) rd(1) rd(3) rd(4) b2]
  have 1: "\<exists>evs. status_queries evs = 2 \<and> sleeps evs = replicate 2 10 \<and>
      wait_for_video_processing (demo_world 11 ?doc accepted progress) ?j logged_in =
      (Inr demo_blob, logged_in\<lparr>trace := ?pre @ evs @ [Net ?q]\<rparr>)"
    by (auto simp: s1 demo_blob_def)
  have nt1: "\<forall>i<1. non_terminal (failing (status_queries (trace ?s1) + i))"
    by (simp add: s1 failing_def non_terminal_def job_state_def
        job_status_response_def json_response_def response_json_def)
  have p1: "failing (status_queries (trace ?s1) + 1) =
      job_status_response ''JOB_STATE_FAILED'' [(''error'', PStr ''transcode error'')]"
    by (simp add: s1 failing_def)
  have b1: "py_get (PDict [(''state'', PStr ''JOB_STATE_FAILED''),
        (''error'', PStr ''transcode error'')]) ''blob'' PNone = Inr PNone"
    "py_get (PDict [(''state'', PStr ''JOB_STATE_FAILED''),
        (''error'', PStr ''transcode error'')]) ''error'' (PStr ''Unknown error'') =
      Inr (PStr ''transcode error'')"
    by simp_all
  from poll_response_classification
    [of "demo_world 11 ?doc accepted failing" logged_in ?a ?s1 ?j failing 1,
      OF auth tr srv nt1 att(2) p1 rd(2) rd(1) rd(3) rd(4) b1]
  have 2: "\<exists>evs. status_queries evs = 1 \<and> sleeps evs = replicate 1 10 \<and>
      wait_for_video_processing (demo_world 11 ?doc accepted failing) ?j logged_in =
      (Inr PNone, logged_in\<lparr>trace := ?pre @ evs @ [Net ?q,
         Say (ProcessingFailed (PStr ''transcode error''))]\<rparr>)"
    by (auto simp: s1)
  have nt0: "\<forall>i<0. non_terminal (script (status_queries (trace ?s1) + i))" for script
    by simp
  have p0: "progress (status_queries (trace ?s1) + 0) = job_status_response ''JOB_STATE_RUNNING'' []"
    "scanning (status_queries (trace ?s1) + 0) = job_status_response ''JOB_STATE_SCANNING'' []"
    by (simp_all add: s1 progress_def scanning_def)
  have b0: "py_get (PDict [(''state'', PStr st)]) ''blob'' PNone = Inr PNone"
    "py_get (PDict [(''state'', PStr st)]) ''error'' (PStr ''Unknown error'') =
      Inr (PStr ''Unknown error'')" for st
    by simp_all
  from poll_response_classification
    [of "demo_world 11 ?doc accepted progress" logged_in ?a ?s1 ?j progress 0,
      OF auth tr srv nt0 att(1) p0(1) rd(2) rd(1) rd(3) rd(4) b0]
  have 3: "\<exists>evs. status_queries evs = 0 \<and> sleeps evs = replicate 0 10 \<and>
      wait_for_video_processing (demo_world 11 ?doc accepted progress) ?j logged_in =
      try_except (poll_loop (demo_world 11 ?doc accepted progress) ?a ?j 29)
        (\<lambda>e. seq (say (WaitError e)) (ret PNone))
        (logged_in\<lparr>trace := ?pre @ evs @ [Net ?q, Sleep 10]\<rparr>)"
    by (auto simp: s1 att)
  from poll_response_classification
    [of "demo_world 11 ?doc accepted scanning" logged_in ?a ?s1 ?j scanning 0,
      OF auth tr srv nt0 att(1) p0(2) rd(2) rd(1) rd(3) rd(4) b0]
  have 4: "\<exists>evs. status_queries evs = 0 \<and> sleeps evs = replicate 0 10 \<and>
      wait_for_video_processing (demo_world 11 ?doc accepted scanning) ?j logged_in =
      try_except (poll_loop (demo_world 11 ?doc accepted scanning) ?a ?j 29)
        (\<lambda>e. seq (say (WaitError e)) (ret PNone))
        (logged_in\<lparr>trace := ?pre @ evs @ [Net ?q,
           Say (UnknownJobState (PStr ''JOB_STATE_SCANNING'')), Sleep 10]\<rparr>)"
    by (auto simp: s1 att)
  from 1 2 3 4 show ?thesis
    by (intro conjI)
qed

section \<open>A failed job\<close>

lemma upload_video_polls:
  assumes "get_service_auth w s = (Inr a, s1)" and "truthy a"
    and "stat_size w video_path = Some n" and "read_bytes w video_path = Some video_data"
    and "did s1 = PStr d"
    and "respond w (trace s1) (UploadVideo a d video_data) = Some r"
    and "status_code r = 200"
    and "response_json r = Inr upload_result"
    and "py_get upload_result ''jobId'' PNone = Inr job_id" and "truthy job_id"
    and "wait_for_video_processing w job_id
           (s1\<lparr>trace := trace s1 @ [Net (UploadVideo a d video_data)]\<rparr>) = (Inr blob_ref, s2)"
  shows "upload_video w video_path s =
     (if truthy blob_ref then (Inr (video_result_of blob_ref job_id), s2)
      else (Inr PNone, s2\<lparr>trace := trace s2 @ [Say NoBlobAfterProcessing]\<rparr>))"
  using assms
  by (simp add: upload_video_def try_except_def thn_def lift_def os_result_def read_state_def
      quote_did_def http_def ret_def seq_def say_def emit_def)

lemma post_to_bluesky_upload_fails:
  assumes "cfg_handle cfg \<noteq> ''handle.bsky.social''" and "cfg_password cfg \<noteq> ''''"
    and "create_session w (cfg_handle cfg) (cfg_password cfg)
           (s\<lparr>access_token := PNone, did := PNone, handle := PNone\<rparr>) = (Inr True, sa)"
    and "stat_size w video_path = Some n" and "\<not> too_large n"
    and "upload_video w video_path sa = (Inr video_result, sb)" and "\<not> truthy video_result"
  shows "post_to_bluesky w cfg video_path description sunrise_hms s =
     (Inr False, sb\<lparr>trace := trace sb @ [Say VideoUploadFailed]\<rparr>)"
  unfolding post_to_bluesky_def using assms
  by (simp add: try_except_def thn_def init_client_def os_result_def lift_def seq_def
      say_def emit_def ret_def)

text \<open>
  Claim C5. Take a publish attempt with credentials configured in which the session is
  created, the file is small enough, the tokens are issued and the upload is accepted with
  a job id. When an answer to the poller reports \<^verbatim>\<open>JOB_STATE_FAILED\<close> (after any number
  \<open>m\<close> of answers that were not terminal, below the 30 attempts),
  \<^verbatim>\<open>post_to_bluesky\<close> returns \<^verbatim>\<open>False\<close>; the run ends with that status query, the
  diagnostic that carries the error the server supplied, and the two diagnostics of the
  failed upload; and no \<^verbatim>\<open>createRecord\<close> request is sent in the whole attempt: it ends
  before the post is composed.
\<close>

theorem processing_failure_aborts_before_post:
  assumes "cfg_handle cfg \<noteq> ''handle.bsky.social''" and "cfg_password cfg \<noteq> ''''"
    and "create_session w (cfg_handle cfg) (cfg_password cfg)
           (s\<lparr>access_token := PNone, did := PNone, handle := PNone\<rparr>) = (Inr True, sa)"
    and "stat_size w video_path = Some n" and "\<not> too_large n"
    and "get_service_auth w sa = (Inr a1, sb)" and "truthy a1"
    and "read_bytes w video_path = Some video_data" and "did sb = PStr d"
    and "respond w (trace sb) (UploadVideo a1 d video_data) = Some ru"
    and "status_code ru = 200"
    and "response_json ru = Inr upload_result"
    and "py_get upload_result ''jobId'' PNone = Inr job_id" and "truthy job_id"
    and "get_service_auth w (sb\<lparr>trace := trace sb @ [Net (UploadVideo a1 d video_data)]\<rparr>) =
           (Inr a2, sd)"
    and "truthy a2"
    and "\<forall>tr. respond w tr (GetJobStatus a2 job_id) = Some (script (status_queries tr))"
    and "\<forall>i<m. non_terminal (script (status_queries (trace sd) + i))"
    and "m < max_attempts"
    and "script (status_queries (trace sd) + m) = r"
    and "status_code r = 200"
    and "response_json r = Inr body"
    and "py_get body ''jobStatus'' (PDict []) = Inr job_status"
    and "py_get job_status ''state'' PNone = Inr (PStr ''JOB_STATE_FAILED'')"
    and "py_get job_status ''error'' (PStr ''Unknown error'') = Inr err"
  shows
   "\<exists>evs all.
      post_to_bluesky w cfg video_path description sunrise_hms s =
        (Inr False,
         sd\<lparr>trace := trace sd @ evs @
            [Net (GetJobStatus a2 job_id), Say (ProcessingFailed err),
             Say NoBlobAfterProcessing, Say VideoUploadFailed]\<rparr>) \<and>
      status_queries evs = m \<and> sleeps evs = replicate m 10 \<and>
      trace sd @ evs @
        [Net (GetJobStatus a2 job_id), Say (ProcessingFailed err),
         Say NoBlobAfterProcessing, Say VideoUploadFailed] = trace s @ all \<and>
      record_posts all = 0 \<and> status_queries all = Suc m"
proof -
  let ?s0 = "s\<lparr>access_token := PNone, did := PNone, handle := PNone\<rparr>"
  let ?up = "Net (UploadVideo a1 d video_data)"
  let ?sc = "sb\<lparr>trace := trace sb @ [?up]\<rparr>"
  let ?q = "GetJobStatus a2 job_id"
  let ?n = "max_attempts - Suc m"
  from wait_reaches [OF assms(15-19)]
  obtain evs where facts: "status_queries evs = m" "sleeps evs = replicate m 10"
      "record_posts evs = 0"
    and reach: "respond w (trace sd @ evs) ?q = Some (script (status_queries (trace sd) + m))"
    and wait: "wait_for_video_processing w job_id ?sc =
      try_except (poll_loop w a2 job_id (Suc ?n)) (\<lambda>e. seq (say (WaitError e)) (ret PNone))
        (sd\<lparr>trace := trace sd @ evs\<rparr>)"
    by blast
  let ?se = "sd\<lparr>trace := trace sd @ evs\<rparr>"
  from reach assms(20) have answer: "respond w (trace ?se) ?q = Some r"
    by simp
  from assms(24) obtain blob_ref where blob: "py_get job_status ''blob'' PNone = Inr blob_ref"
    by (cases job_status) simp_all
  from poll_loop_answer [OF answer assms(21-24) blob assms(25), of ?n]
  have "poll_loop w a2 job_id (Suc ?n) ?se =
      (Inr PNone, ?se\<lparr>trace := trace ?se @ [Net ?q, Say (ProcessingFailed err)]\<rparr>)"
    by simp
  with wait have w: "wait_for_video_processing w job_id ?sc =
      (Inr PNone, sd\<lparr>trace := trace sd @ evs @ [Net ?q, Say (ProcessingFailed err)]\<rparr>)"
    by (simp add: try_except_def)
  from upload_video_polls [OF assms(6,7,4,8-14) w]
  have u: "upload_video w video_path sa =
      (Inr PNone, sd\<lparr>trace := trace sd @ evs @ [Net ?q, Say (ProcessingFailed err),
         Say NoBlobAfterProcessing]\<rparr>)"
    by simp
  from post_to_bluesky_upload_fails [OF assms(1-5) u]
  have p: "post_to_bluesky w cfg video_path description sunrise_hms s =
      (Inr False, sd\<lparr>trace := trace sd @ evs @ [Net ?q, Say (ProcessingFailed err),
         Say NoBlobAfterProcessing, Say VideoUploadFailed]\<rparr>)"
    by simp
  obtain r1 s1' e1 where "create_session w (cfg_handle cfg) (cfg_password cfg) ?s0 = (r1, s1')"
    and "trace s1' = trace ?s0 @ e1"
    and "\<not> isl r1 \<and> requests e1 = [CreateSession (cfg_handle cfg) (cfg_password cfg)] \<and>
         calm e1 \<and> dir_lookups e1 = 0"
    by (rule io_satE [OF create_session_sat])
  with assms(3) have ta: "trace sa = trace s @ e1" and ca: "calm e1"
    by simp_all
  obtain r2 s2' e2 where "get_service_auth w sa = (r2, s2')" and "trace s2' = trace sa @ e2"
    and "\<not> isl r2 \<and> calm e2 \<and> dir_lookups e2 = 1"
    by (rule io_satE [OF get_service_auth_sat])
  with assms(6) have tb: "trace sb = trace sa @ e2" and cb: "calm e2"
    by simp_all
  obtain r3 s3' e3 where "get_service_auth w ?sc = (r3, s3')" and "trace s3' = trace ?sc @ e3"
    and "\<not> isl r3 \<and> calm e3 \<and> dir_lookups e3 = 1"
    by (rule io_satE [OF get_service_auth_sat])
  with assms(15) have td: "trace sd = trace ?sc @ e3" and cd: "calm e3"
    by simp_all
  let ?tail = "[Net ?q, Say (ProcessingFailed err), Say NoBlobAfterProcessing,
    Say VideoUploadFailed]"
  let ?all = "e1 @ e2 @ [?up] @ e3 @ evs @ ?tail"
  from ta tb td have t: "trace sd @ evs @ ?tail = trace s @ ?all"
    by simp
  from ca cb cd facts have c: "record_posts ?all = 0" "status_queries ?all = Suc m"
    by (simp_all add: calm_def del: append_Cons append.simps)
  from p facts t c show ?thesis
    by (intro exI [of _ evs] exI [of _ ?all] conjI)
qed

theorem processing_failure_aborts_before_post_witness:
  "\<exists>evs all.
      post_to_bluesky (demo_world 11 (did_document [pds_service]) accepted failing) demo_config
        ''sunrise.mp4'' ''Dawn over the harbor'' ''05:31:00'' fresh =
        (Inr False,
         logged_in\<lparr>trace :=
            [Net (CreateSession ''alice.bsky.social'' ''app-password''),
             Net (GetDidDocument (PStr ''did:plc:abc123'')),
             Net (GetServiceAuth (PStr ''jwt'') (PStr ''did:web:pds.example.com'') 1754199000),
             Net (UploadVideo (PStr ''svc'') ''did:plc:abc123'' (file_bytes 11)),
             Net (GetDidDocument (PStr ''did:plc:abc123'')),
             Net (GetServiceAuth (PStr ''jwt'') (PStr ''did:web:pds.example.com'') 1754199000)]
            @ evs @
            [Net (GetJobStatus (PStr ''svc'') (PStr ''job-1'')),
             Say (ProcessingFailed (PStr ''transcode error'')),
             Say NoBlobAfterProcessing, Say VideoUploadFailed]\<rparr>) \<and>
      status_queries evs = 1 \<and> sleeps evs = replicate 1 10 \<and>
      [Net (CreateSession ''alice.bsky.social'' ''app-password''),
       Net (GetDidDocument (PStr ''did:plc:abc123'')),
       Net (GetServiceAuth (PStr ''jwt'') (PStr ''did:web:pds.example.com'') 1754199000),
       Net (UploadVideo (PStr ''svc'') ''did:plc:abc123'' (file_bytes 11)),
       Net (GetDidDocument (PStr ''did:plc:abc123'')),
       Net (GetServiceAuth (PStr ''jwt'') (PStr ''did:web:pds.example.com'') 1754199000)]
      @ evs @
      [Net (GetJobStatus (PStr ''svc'') (PStr ''job-1'')),
       Say (ProcessingFailed (PStr ''transcode error'')),
       Say NoBlobAfterProcessing, Say VideoUploadFailed] = all \<and>
      record_posts all = 0 \<and> status_queries all = 2"
proof -
  let ?w = "demo_world 11 (did_document [pds_service]) accepted failing"
  let ?login = "Net (CreateSession ''alice.bsky.social'' ''app-password'')"
  let ?pre = "[Net (GetDidDocument (PStr ''did:plc:abc123'')),
     Net (GetServiceAuth (PStr ''jwt'') (PStr ''did:web:pds.example.com'') 1754199000)]"
  let ?up = "Net (UploadVideo (PStr ''svc'') ''did:plc:abc123'' (file_bytes 11))"
  let ?sa = "logged_in\<lparr>trace := [?login]\<rparr>"
  let ?sb = "logged_in\<lparr>trace := ?login # ?pre\<rparr>"
  let ?sc = "logged_in\<lparr>trace := ?login # ?pre @ [?up]\<rparr>"
  let ?sd = "logged_in\<lparr>trace := ?login # ?pre @ [?up] @ ?pre\<rparr>"
  let ?f = "PDict [(''state'', PStr ''JOB_STATE_FAILED''), (''error'', PStr ''transcode error'')]"
  have h1: "cfg_handle demo_config \<noteq> ''handle.bsky.social''"
    and h2: "cfg_password demo_config \<noteq> ''''"
    by (simp_all add: demo_config_def)
  have h3: "create_session ?w (cfg_handle demo_config) (cfg_password demo_config)
      (fresh\<lparr>access_token := PNone, did := PNone, handle := PNone\<rparr>) = (Inr True, ?sa)"
    by (simp add: create_session_def io_defs response_json_def demo_world_def demo_config_def
        json_response_def fresh_def logged_in_def)
  have h4: "stat_size ?w ''sunrise.mp4'' = Some 11" and h5: "\<not> too_large 11"
    and h8: "read_bytes ?w ''sunrise.mp4'' = Some (file_bytes 11)"
    by (simp_all add: demo_world_def too_large_def)
  have fields: "access_token (logged_in\<lparr>trace := evs\<rparr>) = PStr ''jwt''"
    "did (logged_in\<lparr>trace := evs\<rparr>) = PStr ''did:plc:abc123''"
    "trace (logged_in\<lparr>trace := evs\<rparr>) = evs"
    "logged_in\<lparr>trace := evs, trace := evs'\<rparr> = logged_in\<lparr>trace := evs'\<rparr>" for evs evs'
    by (simp_all add: logged_in_def)
  have h6: "get_service_auth ?w ?sa = (Inr (PStr ''svc''), ?sb)"
    using demo_service_auth_at [of ?sa 11 accepted failing] by (simp add: fields)
  have h7: "truthy (PStr ''svc'')" and h14: "truthy (PStr ''job-1'')"
    by simp_all
  have h9: "did ?sb = PStr ''did:plc:abc123''"
    by (simp add: fields)
  have h10: "respond ?w (trace ?sb) (UploadVideo (PStr ''svc'') ''did:plc:abc123'' (file_bytes 11))
      = Some accepted"
    by (simp add: demo_world_def)
  have h11: "status_code accepted = 200"
    and h12: "response_json accepted = Inr (PDict [(''jobId'', PStr ''job-1'')])"
    and h13: "py_get (PDict [(''jobId'', PStr ''job-1'')]) ''jobId'' PNone = Inr (PStr ''job-1'')"
    by (simp_all add: accepted_def json_response_def response_json_def)
  have h15: "get_service_auth ?w (?sb\<lparr>trace := trace ?sb @ [?up]\<rparr>) = (Inr (PStr ''svc''), ?sd)"
    using demo_service_auth_at [of ?sc 11 accepted failing] by (simp add: fields)
  have h17: "\<forall>tr. respond ?w tr (GetJobStatus (PStr ''svc'') (PStr ''job-1'')) =
      Some (failing (status_queries tr))"
    by (simp add: demo_world_def)
  have h18: "\<forall>i<1. non_terminal (failing (status_queries (trace ?sd) + i))"
    by (simp add: fields failing_def non_terminal_def job_state_def job_status_response_def
        json_response_def response_json_def)
  have h19: "1 < max_attempts"
    by (simp add: max_attempts_def)
  have h20: "failing (status_queries (trace ?sd) + 1) =
      job_status_response ''JOB_STATE_FAILED'' [(''error'', PStr ''transcode error'')]"
    by (simp add: fields failing_def)
  have h21: "status_code (job_status_response ''JOB_STATE_FAILED''
        [(''error'', PStr ''transcode error'')]) = 200"
    and h22: "response_json (job_status_response ''JOB_STATE_FAILED''
        [(''error'', PStr ''transcode error'')]) = Inr (PDict [(''jobStatus'', ?f)])"
    and h23: "py_get (PDict [(''jobStatus'', ?f)]) ''jobStatus'' (PDict []) = Inr ?f"
    and h24: "py_get ?f ''state'' PNone = Inr (PStr ''JOB_STATE_FAILED'')"
    and h25: "py_get ?f ''error'' (PStr ''Unknown error'') = Inr (PStr ''transcode error'')"
    by (simp_all add: job_status_response_def json_response_def response_json_def)
  from processing_failure_aborts_before_post
    [OF h1 h2 h3 h4 h5 h6 h7 h8 h9 h10 h11 h12 h13 h14 h15 h7 h17 h18 h19 h20 h21 h22 h23 h24
      h25, of "''Dawn over the harbor''" "''05:31:00''"]
  show ?thesis
    by (simp add: fields fresh_def)
qed

section \<open>The conflict answer to an upload\<close>

lemma upload_video_conflict_fetch:
  assumes "get_service_auth w s = (Inr auth, s1)" and "truthy auth"
    and "stat_size w video_path = Some n" and "read_bytes w video_path = Some video_data"
    and "did s1 = PStr d"
    and "respond w (trace s1) (UploadVideo auth d video_data) = Some r"
    and "status_code r = 409"
    and "response_json r = Inr upload_result"
    and "py_get upload_result ''jobId'' PNone = Inr job_id" and "truthy job_id"
    and "py_get upload_result ''state'' PNone = Inr (PStr ''JOB_STATE_COMPLETED'')"
    and "get_completed_job_blob w job_id
           (s1\<lparr>trace := trace s1 @ [Net (UploadVideo auth d video_data)]\<rparr>) = (Inr blob_ref, s2)"
  shows "upload_video w video_path s =
     (if truthy blob_ref then (Inr (video_result_of blob_ref job_id), s2)
      else (Inr PNone, s2\<lparr>trace := trace s2 @ [Say NoBlobFromCompletedJob]\<rparr>))"
  using assms
  by (simp add: upload_video_def try_except_def thn_def lift_def os_result_def read_state_def
      quote_did_def http_def ret_def seq_def say_def emit_def)

lemma get_completed_job_blob_no_token:
  assumes "get_service_auth w s = (Inr a, s1)" and "\<not> truthy a"
  shows "get_completed_job_blob w job_id s = (Inr PNone, s1)"
  using assms
  by (simp add: get_completed_job_blob_def try_except_def thn_def ret_def)

lemma get_completed_job_blob_found:
  assumes "get_service_auth w s = (Inr a, s1)" and "truthy a"
    and "respond w (trace s1) (GetJobStatus a job_id) = Some r"
    and "status_code r = 200" and "job_blob r = Inr blob_ref" and "truthy blob_ref"
  shows "get_completed_job_blob w job_id s =
     (Inr blob_ref, s1\<lparr>trace := trace s1 @ [Net (GetJobStatus a job_id)]\<rparr>)"
  using assms
  by (auto simp: get_completed_job_blob_def try_except_def thn_def ret_def http_def lift_def
      job_blob_def split: sum.splits)

lemma get_completed_job_blob_missing:
  assumes "get_service_auth w s = (Inr a, s1)" and "truthy a"
    and "\<not> carries_blob (respond w (trace s1) (GetJobStatus a job_id))"
  shows "\<exists>m. get_completed_job_blob w job_id s =
     (Inr PNone, s1\<lparr>trace := trace s1 @ [Net (GetJobStatus a job_id), Say m]\<rparr>)"
  using assms
  by (auto simp: get_completed_job_blob_def try_except_def thn_def ret_def http_def lift_def
      seq_def say_def emit_def job_blob_def carries_blob_def split: sum.splits option.splits)

text \<open>
  Claim C2, as amended. Let the upload be answered with status 409 and a body that carries
  a job id and a state. If the state is \<^verbatim>\<open>JOB_STATE_COMPLETED\<close>, \<^verbatim>\<open>upload_video\<close> asks
  for a token and sends exactly one status query: when the answer to that query carries a
  blob, \<^verbatim>\<open>upload_video\<close> returns the completed result with this blob and the job id,
  and when it carries none, \<^verbatim>\<open>upload_video\<close> fails after that one query; when no token
  is issued, it fails without a status query. For every other reported state
  \<^verbatim>\<open>upload_video\<close> fails at once: it returns \<^verbatim>\<open>None\<close> after the upload request, with
  no status query and no polling.
\<close>

theorem upload_video_conflict:
  assumes "get_service_auth w s = (Inr auth, s1)" and "truthy auth"
    and "stat_size w video_path = Some n" and "read_bytes w video_path = Some video_data"
    and "did s1 = PStr d"
    and "respond w (trace s1) (UploadVideo auth d video_data) = Some r"
    and "status_code r = 409"
    and "response_json r = Inr upload_result"
    and "py_get upload_result ''jobId'' PNone = Inr job_id" and "truthy job_id"
    and "py_get upload_result ''state'' PNone = Inr st"
    and "get_service_auth w (s1\<lparr>trace := trace s1 @ [Net (UploadVideo auth d video_data)]\<rparr>) =
           (Inr a2, s3)"
  shows
   "(st = PStr ''JOB_STATE_COMPLETED'' \<and> truthy a2 \<and>
     respond w (trace s3) (GetJobStatus a2 job_id) = Some r2 \<and> status_code r2 = 200 \<and>
     job_blob r2 = Inr blob_ref \<and> truthy blob_ref \<longrightarrow>
       upload_video w video_path s =
         (Inr (video_result_of blob_ref job_id),
          s3\<lparr>trace := trace s3 @ [Net (GetJobStatus a2 job_id)]\<rparr>)) \<and>
    (st = PStr ''JOB_STATE_COMPLETED'' \<and> truthy a2 \<and>
     \<not> carries_blob (respond w (trace s3) (GetJobStatus a2 job_id)) \<longrightarrow>
       (\<exists>m. upload_video w video_path s =
          (Inr PNone,
           s3\<lparr>trace := trace s3 @ [Net (GetJobStatus a2 job_id), Say m,
              Say NoBlobFromCompletedJob]\<rparr>))) \<and>
    (st = PStr ''JOB_STATE_COMPLETED'' \<and> \<not> truthy a2 \<longrightarrow>
       upload_video w video_path s =
         (Inr PNone, s3\<lparr>trace := trace s3 @ [Say NoBlobFromCompletedJob]\<rparr>)) \<and>
    (st \<noteq> PStr ''JOB_STATE_COMPLETED'' \<longrightarrow>
       upload_video w video_path s =
         (Inr PNone,
          s1\<lparr>trace := trace s1 @ [Net (UploadVideo auth d video_data),
             Say (UnexpectedExistingState st)]\<rparr>))"
proof (intro conjI impI)
  assume h: "st = PStr ''JOB_STATE_COMPLETED'' \<and> truthy a2 \<and>
     respond w (trace s3) (GetJobStatus a2 job_id) = Some r2 \<and> status_code r2 = 200 \<and>
     job_blob r2 = Inr blob_ref \<and> truthy blob_ref"
  then have st: "py_get upload_result ''state'' PNone = Inr (PStr ''JOB_STATE_COMPLETED'')"
    using assms(11) by simp
  from h have a: "truthy a2" "respond w (trace s3) (GetJobStatus a2 job_id) = Some r2"
    "status_code r2 = 200" "job_blob r2 = Inr blob_ref" "truthy blob_ref"
    by blast+
  have "get_completed_job_blob w job_id
      (s1\<lparr>trace := trace s1 @ [Net (UploadVideo auth d video_data)]\<rparr>) =
      (Inr blob_ref, s3\<lparr>trace := trace s3 @ [Net (GetJobStatus a2 job_id)]\<rparr>)"
    by (rule get_completed_job_blob_found [OF assms(12) a])
  from upload_video_conflict_fetch [OF assms(1-10) st this] a(5)
  show "upload_video w video_path s =
         (Inr (video_result_of blob_ref job_id),
          s3\<lparr>trace := trace s3 @ [Net (GetJobStatus a2 job_id)]\<rparr>)"
    by simp
next
  assume h: "st = PStr ''JOB_STATE_COMPLETED'' \<and> truthy a2 \<and>
     \<not> carries_blob (respond w (trace s3) (GetJobStatus a2 job_id))"
  then have st: "py_get upload_result ''state'' PNone = Inr (PStr ''JOB_STATE_COMPLETED'')"
    using assms(11) by simp
  from h have a: "truthy a2" "\<not> carries_blob (respond w (trace s3) (GetJobStatus a2 job_id))"
    by blast+
  from get_completed_job_blob_missing [OF assms(12) a]
  obtain m where "get_completed_job_blob w job_id
      (s1\<lparr>trace := trace s1 @ [Net (UploadVideo auth d video_data)]\<rparr>) =
      (Inr PNone, s3\<lparr>trace := trace s3 @ [Net (GetJobStatus a2 job_id), Say m]\<rparr>)"
    by blast
  from upload_video_conflict_fetch [OF assms(1-10) st this]
  show "\<exists>m. upload_video w video_path s =
          (Inr PNone,
           s3\<lparr>trace := trace s3 @ [Net (GetJobStatus a2 job_id), Say m,
              Say NoBlobFromCompletedJob]\<rparr>)"
    by (intro exI [of _ m]) simp
next
  assume h: "st = PStr ''JOB_STATE_COMPLETED'' \<and> \<not> truthy a2"
  then have st: "py_get upload_result ''state'' PNone = Inr (PStr ''JOB_STATE_COMPLETED'')"
    using assms(11) by simp
  from h have a: "\<not> truthy a2"
    by blast
  have "get_completed_job_blob w job_id
      (s1\<lparr>trace := trace s1 @ [Net (UploadVideo auth d video_data)]\<rparr>) = (Inr PNone, s3)"
    by (rule get_completed_job_blob_no_token [OF assms(12) a])
  from upload_video_conflict_fetch [OF assms(1-10) st this]
  show "upload_video w video_path s =
         (Inr PNone, s3\<lparr>trace := trace s3 @ [Say NoBlobFromCompletedJob]\<rparr>)"
    by simp
next
  assume "st \<noteq> PStr ''JOB_STATE_COMPLETED''"
  with assms(1-11) show "upload_video w video_path s =
         (Inr PNone,
          s1\<lparr>trace := trace s1 @ [Net (UploadVideo auth d video_data),
             Say (UnexpectedExistingState st)]\<rparr>)"
    by (simp add: upload_video_def try_except_def thn_def lift_def os_result_def
        read_state_def quote_did_def http_def ret_def seq_def say_def emit_def)
qed

theorem upload_video_conflict_witness:
  "upload_video (demo_world 11 (did_document [pds_service]) (conflict ''JOB_STATE_COMPLETED'')
       completed) ''sunrise.mp4'' logged_in =
   (Inr (video_result_of demo_blob (PStr ''job-1'')),
    logged_in\<lparr>trace := [Net (GetDidDocument (PStr ''did:plc:abc123'')),
        Net (GetServiceAuth (PStr ''jwt'') (PStr ''did:web:pds.example.com'') 1754199000),
        Net (UploadVideo (PStr ''svc'') ''did:plc:abc123'' (file_bytes 11)),
        Net (GetDidDocument (PStr ''did:plc:abc123'')),
        Net (GetServiceAuth (PStr ''jwt'') (PStr ''did:web:pds.example.com'') 1754199000),
        Net (GetJobStatus (PStr ''svc'') (PStr ''job-1''))]\<rparr>) \<and>
   (\<exists>m. upload_video (demo_world 11 (did_document [pds_service])
         (conflict ''JOB_STATE_COMPLETED'') unavailable) ''sunrise.mp4'' logged_in =
      (Inr PNone,
       logged_in\<lparr>trace := [Net (GetDidDocument (PStr ''did:plc:abc123'')),
          Net (GetServiceAuth (PStr ''jwt'') (PStr ''did:web:pds.example.com'') 1754199000),
          Net (UploadVideo (PStr ''svc'') ''did:plc:abc123'' (file_bytes 11)),
          Net (GetDidDocument (PStr ''did:plc:abc123'')),
          Net (GetServiceAuth (PStr ''jwt'') (PStr ''did:web:pds.example.com'') 1754199000),
          Net (GetJobStatus (PStr ''svc'') (PStr ''job-1'')), Say m,
          Say NoBlobFromCompletedJob]\<rparr>)) \<and>
   upload_video (no_token_after_upload (demo_world 11 (did_document [pds_service])
       (conflict ''JOB_STATE_COMPLETED'') completed)) ''sunrise.mp4'' logged_in =
   (Inr PNone,
    logged_in\<lparr>trace := [Net (GetDidDocument (PStr ''did:plc:abc123'')),
        Net (GetServiceAuth (PStr ''jwt'') (PStr ''did:web:pds.example.com'') 1754199000),
        Net (UploadVideo (PStr ''svc'') ''did:plc:abc123'' (file_bytes 11)),
        Net (GetDidDocument (PStr ''did:plc:abc123'')),
        Net (GetServiceAuth (PStr ''jwt'') (PStr ''did:web:pds.example.com'') 1754199000),
        Say (ServiceAuthFailed 401), Say NoBlobFromCompletedJob]\<rparr>) \<and>
   upload_video (demo_world 11 (did_document [pds_service]) (conflict ''JOB_STATE_ENCODING'')
       progress) ''sunrise.mp4'' logged_in =
   (Inr PNone,
    logged_in\<lparr>trace := [Net (GetDidDocument (PStr ''did:plc:abc123'')),
        Net (GetServiceAuth (PStr ''jwt'') (PStr ''did:web:pds.example.com'') 1754199000),
        Net (UploadVideo (PStr ''svc'') ''did:plc:abc123'' (file_bytes 11)),
        Say (UnexpectedExistingState (PStr ''JOB_STATE_ENCODING''))]\<rparr>)"
proof -
  let ?doc = "did_document [pds_service]"
  let ?pre = "[Net (GetDidDocument (PStr ''did:plc:abc123'')),
        Net (GetServiceAuth (PStr ''jwt'') (PStr ''did:web:pds.example.com'') 1754199000)]"
  let ?up = "UploadVideo (PStr ''svc'') ''did:plc:abc123'' (file_bytes 11)"
  let ?q = "GetJobStatus (PStr ''svc'') (PStr ''job-1'')"
  let ?s1 = "logged_in\<lparr>trace := ?pre\<rparr>"
  let ?s3 = "logged_in\<lparr>trace := ?pre @ [Net ?up] @ ?pre\<rparr>"
  let ?s3n = "logged_in\<lparr>trace := ?pre @ [Net ?up] @ ?pre @ [Say (ServiceAuthFailed 401)]\<rparr>"
  let ?a = "PStr ''svc''"
  let ?j = "PStr ''job-1''"
  have fields: "access_token (logged_in\<lparr>trace := evs\<rparr>) = PStr ''jwt''"
    "did (logged_in\<lparr>trace := evs\<rparr>) = PStr ''did:plc:abc123''"
    "trace (logged_in\<lparr>trace := evs\<rparr>) = evs"
    "logged_in\<lparr>trace := evs, trace := evs'\<rparr> = logged_in\<lparr>trace := evs'\<rparr>" for evs evs'
    by (simp_all add: logged_in_def)
  have tr: "truthy ?a" "truthy ?j" "\<not> truthy PNone"
    by simp_all
  have auth1: "get_service_auth (demo_world 11 ?doc u script) logged_in = (Inr ?a, ?s1)"
    for u script
    by (rule demo_service_auth)
  have auth2: "get_service_auth (demo_world 11 ?doc u script)
      (?s1\<lparr>trace := trace ?s1 @ [Net ?up]\<rparr>) = (Inr ?a, ?s3)" for u script
    using demo_service_auth_at [of "logged_in\<lparr>trace := ?pre @ [Net ?up]\<rparr>" 11 u script]
    by (simp add: fields)
  have fs: "stat_size (demo_world 11 ?doc u script) ''sunrise.mp4'' = Some 11"
    "read_bytes (demo_world 11 ?doc u script) ''sunrise.mp4'' = Some (file_bytes 11)"
    "respond (demo_world 11 ?doc u script) (trace ?s1) ?up = Some u"
    "respond (demo_world 11 ?doc u script) (trace ?s3) ?q = Some (script 0)" for u script
    by (simp_all add: demo_world_def fields status_queries_def)
  have d1: "did ?s1 = PStr ''did:plc:abc123''"
    by (simp add: fields)
  have cf: "status_code (conflict st) = 409"
    "response_json (conflict st) = Inr (PDict [(''jobId'', ?j), (''state'', PStr st)])"
    "py_get (PDict [(''jobId'', ?j), (''state'', PStr st)]) ''jobId'' PNone = Inr ?j"
    "py_get (PDict [(''jobId'', ?j), (''state'', PStr st)]) ''state'' PNone = Inr (PStr st)"
    for st
    by (simp_all add: conflict_def json_response_def response_json_def)
  note base = fs(1,2) d1 fs(3) cf(1,2,3) tr(2) cf(4)
  have blob: "status_code (completed 0) = 200" "job_blob (completed 0) = Inr demo_blob"
    "truthy demo_blob"
    by (simp_all add: completed_def job_status_response_def json_response_def job_blob_def
        response_json_def demo_blob_def)
  from upload_video_conflict
      [OF auth1 [of "conflict ''JOB_STATE_COMPLETED''" completed] tr(1) base auth2,
        of "completed 0" demo_blob, THEN conjunct1, THEN mp] fs(4) blob tr
  have 1: "upload_video (demo_world 11 ?doc (conflict ''JOB_STATE_COMPLETED'') completed)
      ''sunrise.mp4'' logged_in =
      (Inr (video_result_of demo_blob ?j), logged_in\<lparr>trace := ?pre @ [Net ?up] @ ?pre @ [Net ?q]\<rparr>)"
    by (simp add: fields)
  have "\<not> carries_blob (respond (demo_world 11 ?doc (conflict ''JOB_STATE_COMPLETED'')
      unavailable) (trace ?s3) ?q)"
    unfolding fs(4) by (simp add: carries_blob_def unavailable_def)
  with upload_video_conflict
      [OF auth1 [of "conflict ''JOB_STATE_COMPLETED''" unavailable] tr(1) base auth2,
        THEN conjunct2, THEN conjunct1, THEN mp] tr
  have 2: "\<exists>m. upload_video (demo_world 11 ?doc (conflict ''JOB_STATE_COMPLETED'') unavailable)
      ''sunrise.mp4'' logged_in =
      (Inr PNone, logged_in\<lparr>trace := ?pre @ [Net ?up] @ ?pre @ [Net ?q, Say m,
         Say NoBlobFromCompletedJob]\<rparr>)"
    by (simp add: fields)
  let ?wn = "no_token_after_upload (demo_world 11 ?doc (conflict ''JOB_STATE_COMPLETED'')
    completed)"
  have n1: "get_service_auth ?wn logged_in = (Inr ?a, ?s1)"
    by (simp add: get_service_auth_def get_user_pds_did_def io_defs response_json_def
        find_pds_nil find_pds_cons demo_world_def did_document_def pds_service_def
        json_response_def logged_in_def no_token_after_upload_def)
  have n2: "get_service_auth ?wn (?s1\<lparr>trace := trace ?s1 @ [Net ?up]\<rparr>) = (Inr PNone, ?s3n)"
    by (simp add: get_service_auth_def get_user_pds_did_def io_defs response_json_def
        find_pds_nil find_pds_cons demo_world_def did_document_def pds_service_def
        json_response_def logged_in_def no_token_after_upload_def)
  have nf: "stat_size ?wn ''sunrise.mp4'' = Some 11"
    "read_bytes ?wn ''sunrise.mp4'' = Some (file_bytes 11)"
    "respond ?wn (trace ?s1) ?up = Some (conflict ''JOB_STATE_COMPLETED'')"
    by (simp_all add: demo_world_def no_token_after_upload_def fields)
  from upload_video_conflict [OF n1 tr(1) nf(1,2) d1 nf(3) cf(1,2,3) tr(2) cf(4) n2,
      THEN conjunct2, THEN conjunct2, THEN conjunct1, THEN mp] tr
  have 3: "upload_video ?wn ''sunrise.mp4'' logged_in =
      (Inr PNone, logged_in\<lparr>trace := ?pre @ [Net ?up] @ ?pre @
         [Say (ServiceAuthFailed 401), Say NoBlobFromCompletedJob]\<rparr>)"
    by (simp add: fields)
  from upload_video_conflict
      [OF auth1 [of "conflict ''JOB_STATE_ENCODING''" progress] tr(1) base auth2,
        THEN conjunct2, THEN conjunct2, THEN conjunct2, THEN mp]
  have 4: "upload_video (demo_world 11 ?doc (conflict ''JOB_STATE_ENCODING'') progress)
      ''sunrise.mp4'' logged_in =
      (Inr PNone, logged_in\<lparr>trace := ?pre @ [Net ?up,
         Say (UnexpectedExistingState (PStr ''JOB_STATE_ENCODING''))]\<rparr>)"
    by (simp add: fields)
  from 1 2 3 4 show ?thesis
    by simp
qed

text \<open>
  The claim as stated (the conflict path never fails, any other state is handed to the
  poller as a success, and a completed job is always fetched with one status query) fails:
  a conflict that reports a running job makes \<^verbatim>\<open>upload_video\<close> return \<^verbatim>\<open>None\<close> at
  once; a conflict that reports a completed job makes it return \<^verbatim>\<open>None\<close> when the
  status query brings no blob; and when the token for the fetch is refused it returns
  \<^verbatim>\<open>None\<close> without any status query.
\<close>

theorem conflict_can_fail_counterexample:
  "upload_video (demo_world 11 (did_document [pds_service]) (conflict ''JOB_STATE_RUNNING'')
       progress) ''sunrise.mp4'' logged_in =
   (Inr PNone,
    logged_in\<lparr>trace :=
      [Net (GetDidDocument (PStr ''did:plc:abc123'')),
       Net (GetServiceAuth (PStr ''jwt'') (PStr ''did:web:pds.example.com'') 1754199000),
       Net (UploadVideo (PStr ''svc'') ''did:plc:abc123'' (file_bytes 11)),
       Say (UnexpectedExistingState (PStr ''JOB_STATE_RUNNING''))]\<rparr>) \<and>
   upload_video (demo_world 11 (did_document [pds_service]) (conflict ''JOB_STATE_COMPLETED'')
       unavailable) ''sunrise.mp4'' logged_in =
   (Inr PNone,
    logged_in\<lparr>trace :=
      [Net (GetDidDocument (PStr ''did:plc:abc123'')),
       Net (GetServiceAuth (PStr ''jwt'') (PStr ''did:web:pds.example.com'') 1754199000),
       Net (UploadVideo (PStr ''svc'') ''did:plc:abc123'' (file_bytes 11)),
       Net (GetDidDocument (PStr ''did:plc:abc123'')),
       Net (GetServiceAuth (PStr ''jwt'') (PStr ''did:web:pds.example.com'') 1754199000),
       Net (GetJobStatus (PStr ''svc'') (PStr ''job-1'')),
       Say (JobStatusFailed 503), Say NoBlobFromCompletedJob]\<rparr>) \<and>
   upload_video (no_token_after_upload (demo_world 11 (did_document [pds_service])
       (conflict ''JOB_STATE_COMPLETED'') completed)) ''sunrise.mp4'' logged_in =
   (Inr PNone,
    logged_in\<lparr>trace :=
      [Net (GetDidDocument (PStr ''did:plc:abc123'')),
       Net (GetServiceAuth (PStr ''jwt'') (PStr ''did:web:pds.example.com'') 1754199000),
       Net (UploadVideo (PStr ''svc'') ''did:plc:abc123'' (file_bytes 11)),
       Net (GetDidDocument (PStr ''did:plc:abc123'')),
       Net (GetServiceAuth (PStr ''jwt'') (PStr ''did:web:pds.example.com'') 1754199000),
       Say (ServiceAuthFailed 401), Say NoBlobFromCompletedJob]\<rparr>)"
  by (simp add: run_steps)

section \<open>Resolving the storage node\<close>

lemma find_pds_result_cong:
  "urlparse_netloc w = urlparse_netloc w' \<Longrightarrow>
   fst (find_pds w items s) = fst (find_pds w' items s')"
proof (induction items)
  case Nil
  show ?case by (simp add: find_pds_nil io_defs)
next
  case (Cons service rest)
  then show ?case
    by (simp add: find_pds_cons io_defs split: sum.splits pyval.splits option.splits)
qed

lemma find_pds_without_endpoint:
  "\<forall>service\<in>set items. \<not> has_pds_endpoint service \<Longrightarrow>
   fst (find_pds w items s) = Inr PNone \<or> isl (fst (find_pds w items s))"
proof (induction items)
  case Nil
  show ?case by (simp add: find_pds_nil io_defs)
next
  case (Cons service rest)
  then show ?case
    by (auto simp: find_pds_cons io_defs has_pds_endpoint_def split: sum.splits)
qed

lemma get_user_pds_did_result:
  "fst (get_user_pds_did w s) =
     (case respond w (trace s) (GetDidDocument (did s)) of
        None \<Rightarrow> Inr PNone
      | Some r \<Rightarrow>
          if status_code r = 200 then
            (case response_json r of
               Inl e \<Rightarrow> Inr PNone
             | Inr did_doc \<Rightarrow>
                 (case py_get did_doc ''service'' (PList []) of
                    Inl e \<Rightarrow> Inr PNone
                  | Inr services \<Rightarrow>
                      (case py_iter services of
                         Inl e \<Rightarrow> Inr PNone
                       | Inr items \<Rightarrow>
                           (case fst (find_pds w items
                                  (s\<lparr>trace := trace s @ [Net (GetDidDocument (did s))]\<rparr>)) of
                              Inl e \<Rightarrow> Inr PNone
                            | Inr v \<Rightarrow> Inr v))))
          else Inr PNone)"
  by (simp add: get_user_pds_did_def io_defs split: option.splits sum.splits prod.splits)

text \<open>
  Claim C8. The result of \<^verbatim>\<open>get_user_pds_did\<close> is determined by the answer of the
  directory (and the URL parser): two calls that receive the same answer return the same
  value, whatever else differs. When the answer is a DID document whose service list has
  no entry that both has the id \<^verbatim>\<open>#atproto_pds\<close> and a non-empty endpoint, the call fails:
  it returns \<^verbatim>\<open>None\<close>.
\<close>

theorem get_user_pds_did_deterministic:
  "(respond w (trace s) (GetDidDocument (did s)) =
      respond w' (trace s') (GetDidDocument (did s')) \<and>
    urlparse_netloc w = urlparse_netloc w' \<longrightarrow>
    fst (get_user_pds_did w s) = fst (get_user_pds_did w' s')) \<and>
   (respond w (trace s) (GetDidDocument (did s)) = Some r \<and> status_code r = 200 \<and>
    response_json r = Inr did_doc \<and>
    py_get did_doc ''service'' (PList []) = Inr (PList services) \<and>
    (\<forall>service\<in>set services. \<not> has_pds_endpoint service) \<longrightarrow>
    fst (get_user_pds_did w s) = Inr PNone)"
proof (intro conjI impI)
  assume h: "respond w (trace s) (GetDidDocument (did s)) =
      respond w' (trace s') (GetDidDocument (did s')) \<and>
    urlparse_netloc w = urlparse_netloc w'"
  then have "fst (find_pds w items
        (s\<lparr>trace := trace s @ [Net (GetDidDocument (did s))]\<rparr>)) =
      fst (find_pds w' items (s'\<lparr>trace := trace s' @ [Net (GetDidDocument (did s'))]\<rparr>))"
    for items
    by (intro find_pds_result_cong) simp
  with h show "fst (get_user_pds_did w s) = fst (get_user_pds_did w' s')"
    by (simp add: get_user_pds_did_result cong: option.case_cong sum.case_cong if_cong)
next
  assume h: "respond w (trace s) (GetDidDocument (did s)) = Some r \<and> status_code r = 200 \<and>
    response_json r = Inr did_doc \<and>
    py_get did_doc ''service'' (PList []) = Inr (PList services) \<and>
    (\<forall>service\<in>set services. \<not> has_pds_endpoint service)"
  then have "\<forall>service\<in>set services. \<not> has_pds_endpoint service"
    by simp
  from find_pds_without_endpoint [OF this,
      of w "s\<lparr>trace := trace s @ [Net (GetDidDocument (did s))]\<rparr>"]
  have "(case fst (find_pds w services
                (s\<lparr>trace := trace s @ [Net (GetDidDocument (did s))]\<rparr>)) of
           Inl e \<Rightarrow> Inr PNone | Inr v \<Rightarrow> Inr v) = (Inr PNone :: exn + pyval)"
    by (auto split: sum.splits)
  with h show "fst (get_user_pds_did w s) = Inr PNone"
    by (simp add: get_user_pds_did_result)
qed

theorem get_user_pds_did_deterministic_witness:
  "fst (get_user_pds_did (demo_world 11 (did_document [pds_service]) accepted progress)
          logged_in) =
   fst (get_user_pds_did (demo_world 11 (did_document [pds_service]) accepted progress)
          (logged_in\<lparr>trace := [Net (GetDidDocument (PStr ''did:plc:abc123'')),
             Net (GetServiceAuth (PStr ''jwt'') (PStr ''did:web:pds.example.com'')
                    1754199000)]\<rparr>)) \<and>
   fst (get_user_pds_did (demo_world 11 (did_document [pds_service]) accepted progress)
          logged_in) = Inr (PStr ''did:web:pds.example.com'') \<and>
   \<not> has_pds_endpoint (PDict [(''id'', PStr ''#atproto_labeler''),
          (''serviceEndpoint'', PStr ''https://mod.example.com'')]) \<and>
   \<not> has_pds_endpoint (PDict [(''id'', PStr ''#atproto_pds''), (''serviceEndpoint'', PStr '''')]) \<and>
   fst (get_user_pds_did
          (demo_world 11
             (did_document
                [PDict [(''id'', PStr ''#atproto_labeler''),
                        (''serviceEndpoint'', PStr ''https://mod.example.com'')],
                 PDict [(''id'', PStr ''#atproto_pds''), (''serviceEndpoint'', PStr '''')]])
             accepted progress)
          logged_in) = Inr PNone"
proof -
  let ?w = "demo_world 11 (did_document [pds_service]) accepted progress"
  let ?s1 = "logged_in\<lparr>trace := [Net (GetDidDocument (PStr ''did:plc:abc123'')),
             Net (GetServiceAuth (PStr ''jwt'') (PStr ''did:web:pds.example.com'')
                    1754199000)]\<rparr>"
  let ?a = "PDict [(''id'', PStr ''#atproto_labeler''),
                   (''serviceEndpoint'', PStr ''https://mod.example.com'')]"
  let ?b = "PDict [(''id'', PStr ''#atproto_pds''), (''serviceEndpoint'', PStr '''')]"
  let ?v = "demo_world 11 (did_document [?a, ?b]) accepted progress"
  have 1: "fst (get_user_pds_did ?w logged_in) = fst (get_user_pds_did ?w ?s1)"
    by (rule get_user_pds_did_deterministic [of ?w logged_in ?w ?s1, THEN conjunct1, THEN mp])
      (simp add: demo_world_def logged_in_def)
  have 2: "fst (get_user_pds_did ?w logged_in) = Inr (PStr ''did:web:pds.example.com'')"
    by (simp add: get_user_pds_did_def io_defs response_json_def find_pds_nil find_pds_cons
        demo_world_def did_document_def pds_service_def json_response_def logged_in_def)
  have 3: "\<not> has_pds_endpoint ?a" "\<not> has_pds_endpoint ?b"
    by (simp_all add: has_pds_endpoint_def)
  have 4: "fst (get_user_pds_did ?v logged_in) = Inr PNone"
    by (rule get_user_pds_did_deterministic
        [of ?v logged_in _ _ "did_document [?a, ?b]"
          "PDict [(''service'', PList [?a, ?b])]" "[?a, ?b]", THEN conjunct2, THEN mp])
      (simp add: demo_world_def logged_in_def did_document_def json_response_def
        response_json_def has_pds_endpoint_def)
  from 1 2 3 4 show ?thesis
    by (intro conjI)
qed

end
